theory Spec2Isabelle
  imports Complex_Main "HOL-Library.Word"
begin

section \<open>RV thermostat: sample smoothing, heater policy, buttons, boot mode\<close>

text \<open>
  A shallow embedding of \<^verbatim>\<open>Latest_worrking_heater.ino\<close>. The sketch keeps all of its
  state in globals and function-local statics; here they are the fields of one record
  that every handler takes and returns. Calls into the display, the serial port and
  the HTML pages are left out: they never flow back into the fields modelled here.
\<close>

subsection \<open>Floats\<close>

text \<open>
  A C \<^verbatim>\<open>float\<close> is modelled as a real number or NaN. Arithmetic propagates NaN and
  every ordered comparison with NaN is false, as in IEEE 754. The infinities are not
  modelled: the sensor driver yields a finite value or NaN. Comparisons are exact in
  IEEE 754. The sensor arithmetic (conversion to Fahrenheit, sum and quotient of the
  average) is 32-bit float arithmetic and rounds after every operation, with
  \<open>f32\<close> below. The one addition and subtraction on the target temperature is kept
  unrounded; what is proved of it rests on the comparisons that clamp it.
\<close>

datatype fl = NaN | Fin real

fun isnan :: "fl \<Rightarrow> bool" where
  "isnan NaN = True"
| "isnan (Fin x) = False"

fun fadd :: "fl \<Rightarrow> fl \<Rightarrow> fl" where
  "fadd (Fin a) (Fin b) = Fin (a + b)"
| "fadd a b = NaN"

fun fsub :: "fl \<Rightarrow> fl \<Rightarrow> fl" where
  "fsub (Fin a) (Fin b) = Fin (a - b)"
| "fsub a b = NaN"

text \<open>
  Rounding to binary32: round to nearest, ties to even, on a 24-bit significand with
  least exponent \<open>-126\<close>. \<open>ulp\<close> is the spacing of the floats around \<open>x\<close>. Values too
  large for binary32, which IEEE 754 rounds to an infinity, do not arise from sensor
  readings and are rounded as if the exponent had no upper limit.
\<close>

definition round_even :: "real \<Rightarrow> int" where
  "round_even y =
     (let f = \<lfloor>y\<rfloor>; d = y - real_of_int f
      in if d < 1 / 2 then f else if d > 1 / 2 then f + 1 else if even f then f else f + 1)"

definition f32 :: "real \<Rightarrow> real" where
  "f32 x =
     (let e = max \<lfloor>log 2 \<bar>x\<bar>\<rfloor> (- 126);
          ulp = 2 powr (real_of_int e - 23)
      in ulp * real_of_int (round_even (x / ulp)))"

text \<open>The float operations of the sensor arithmetic, each rounded once.\<close>

fun fadd32 :: "fl \<Rightarrow> fl \<Rightarrow> fl" where
  "fadd32 (Fin a) (Fin b) = Fin (f32 (a + b))"
| "fadd32 a b = NaN"

fun fmul32 :: "fl \<Rightarrow> fl \<Rightarrow> fl" where
  "fmul32 (Fin a) (Fin b) = Fin (f32 (a * b))"
| "fmul32 a b = NaN"

text \<open>The sketch only divides by the constants 5 and 10.\<close>

fun fdiv32 :: "fl \<Rightarrow> fl \<Rightarrow> fl" where
  "fdiv32 (Fin a) (Fin b) = (if b = 0 then NaN else Fin (f32 (a / b)))"
| "fdiv32 a b = NaN"

fun flt :: "fl \<Rightarrow> fl \<Rightarrow> bool" where
  "flt (Fin a) (Fin b) = (a < b)"
| "flt a b = False"

fun fgt :: "fl \<Rightarrow> fl \<Rightarrow> bool" where
  "fgt (Fin a) (Fin b) = (a > b)"
| "fgt a b = False"

fun fge :: "fl \<Rightarrow> fl \<Rightarrow> bool" where
  "fge (Fin a) (Fin b) = (a \<ge> b)"
| "fge a b = False"

text \<open>
  \<^verbatim>\<open>min\<close> and \<open>max\<close> as \<^verbatim>\<open>std::min\<close> and \<^verbatim>\<open>std::max\<close>, which the ESP32 core
  brings into scope: \<^verbatim>\<open>min(a,b)\<close> is \<^verbatim>\<open>(b < a) ? b : a\<close> and \<^verbatim>\<open>max(a,b)\<close> is
  \<^verbatim>\<open>(a < b) ? b : a\<close>. The classic Arduino macros differ from them on NaN only.
\<close>

definition fmin :: "fl \<Rightarrow> fl \<Rightarrow> fl" where
  "fmin a b = (if flt b a then b else a)"

definition fmax :: "fl \<Rightarrow> fl \<Rightarrow> fl" where
  "fmax a b = (if flt a b then b else a)"

subsection \<open>Constants\<close>

type_synonym millis = "32 word"
type_synonym byte = "8 word"

abbreviation HEATER_PIN :: nat where "HEATER_PIN \<equiv> 4"
abbreviation SSID_START :: nat where "SSID_START \<equiv> 0"
abbreviation PASS_START :: nat where "PASS_START \<equiv> 32"
abbreviation SSID_MAX_LENGTH :: nat where "SSID_MAX_LENGTH \<equiv> 32"
abbreviation PASS_MAX_LENGTH :: nat where "PASS_MAX_LENGTH \<equiv> 64"
abbreviation FREEZE_GUARD_ADDR :: nat where "FREEZE_GUARD_ADDR \<equiv> 96"
abbreviation SENSOR_READ_INTERVAL :: millis where "SENSOR_READ_INTERVAL \<equiv> 2000"
abbreviation LONG_PRESS_MS :: millis where "LONG_PRESS_MS \<equiv> 1000"
abbreviation WIFI_RESET_MS :: millis where "WIFI_RESET_MS \<equiv> 5000"
abbreviation SLEEP_PRESS_MS :: millis where "SLEEP_PRESS_MS \<equiv> 2000"
abbreviation FREEZE_GUARD_TEMP :: fl where "FREEZE_GUARD_TEMP \<equiv> Fin 38"
abbreviation SAMPLES :: nat where "SAMPLES \<equiv> 10"

subsection \<open>The globals\<close>

text \<open>
  \<open>stateChangeMessage\<close> is either a fixed text or \<^verbatim>\<open>String(targetTemp, 1) + "F"\<close>;
  the second is kept as the number it prints.
\<close>

datatype message = Text string | TempF fl

text \<open>The hardware calls whose order matters: blocking delays and pin writes.\<close>

datatype effect = Delay nat | DigitalWrite nat bool

text \<open>
  Buttons are idle-high: \<open>True\<close> is \<^verbatim>\<open>HIGH\<close> (released), \<open>False\<close> is \<^verbatim>\<open>LOW\<close>
  (pressed). \<open>lastRead\<close> and \<open>sensorInit\<close> are the statics of \<^verbatim>\<open>loop()\<close>;
  \<open>heaterPin\<close> is the level last written to the heater pin; \<open>eeprom\<close> is the
  byte-addressed persistent store.
\<close>

record state =
  currentTemp :: fl
  targetTemp :: fl
  humidity :: fl
  heaterEnabled :: bool
  setupMode :: bool
  isAP :: bool
  freezeGuardEnabled :: bool
  storedSSID :: "byte list"
  storedPassword :: "byte list"
  showingStateChange :: bool
  stateChangeMessage :: message
  stateChangeTime :: millis
  displayBrightness :: byte
  tempReadings :: "fl list"
  humReadings :: "fl list"
  readIndex :: nat
  upButtonStart :: millis
  downButtonStart :: millis
  lastUpState :: bool
  lastDownState :: bool
  longPressHandled :: bool
  displaySleepMode :: bool
  lastActivityTime :: millis
  lastRead :: millis
  sensorInit :: bool
  heaterPin :: bool
  eeprom :: "nat \<Rightarrow> byte"
  effects :: "effect list"

text \<open>The initial values of the globals, over a given content of the persistent store.\<close>

definition power_on :: "(nat \<Rightarrow> byte) \<Rightarrow> state" where
  "power_on e =
     \<lparr> currentTemp = Fin 0, targetTemp = Fin 72, humidity = Fin 0,
       heaterEnabled = False, setupMode = False, isAP = False,
       freezeGuardEnabled = False, storedSSID = [], storedPassword = [],
       showingStateChange = False, stateChangeMessage = Text [],
       stateChangeTime = 0, displayBrightness = 255,
       tempReadings = replicate SAMPLES (Fin 0),
       humReadings = replicate SAMPLES (Fin 0), readIndex = 0,
       upButtonStart = 0, downButtonStart = 0,
       lastUpState = True, lastDownState = True, longPressHandled = False,
       displaySleepMode = False, lastActivityTime = 0, lastRead = 0,
       sensorInit = True, heaterPin = False, eeprom = e, effects = [] \<rparr>"

definition delay :: "nat \<Rightarrow> state \<Rightarrow> state" where
  "delay ms s = s\<lparr>effects := effects s @ [Delay ms]\<rparr>"

definition digitalWrite :: "nat \<Rightarrow> bool \<Rightarrow> state \<Rightarrow> state" where
  "digitalWrite pin v s =
     s\<lparr>heaterPin := (if pin = HEATER_PIN then v else heaterPin s),
       effects := effects s @ [DigitalWrite pin v]\<rparr>"

text \<open>The three assignments that announce a state change on the display.\<close>

definition announce :: "message \<Rightarrow> millis \<Rightarrow> state \<Rightarrow> state" where
  "announce m t s =
     s\<lparr>showingStateChange := True, stateChangeMessage := m, stateChangeTime := t\<rparr>"

subsection \<open>Sample smoothing and heater control (\<^verbatim>\<open>loop\<close>)\<close>

text \<open>\<^verbatim>\<open>x * 9/5 + 32\<close>, evaluated left to right in float arithmetic.\<close>

definition c_to_f :: "fl \<Rightarrow> fl" where
  "c_to_f c = fadd32 (fdiv32 (fmul32 c (Fin 9)) (Fin 5)) (Fin 32)"

text \<open>\<^verbatim>\<open>sum = 0; for (i < SAMPLES) sum += readings[i]; sum / SAMPLES\<close>.\<close>

definition average :: "fl list \<Rightarrow> fl" where
  "average readings =
     fdiv32 (foldl (\<lambda>sum x. fadd32 sum x) (Fin 0) (take SAMPLES readings))
       (Fin (real SAMPLES))"

definition smooth_temp :: "fl \<Rightarrow> state \<Rightarrow> state" where
  "smooth_temp newTemp s =
     (if \<not> isnan newTemp then
        let s1 = s\<lparr>tempReadings := (tempReadings s)[readIndex s := c_to_f newTemp]\<rparr>
        in s1\<lparr>currentTemp := average (tempReadings s1)\<rparr>
      else s)"

definition smooth_hum :: "fl \<Rightarrow> state \<Rightarrow> state" where
  "smooth_hum newHumidity s =
     (if \<not> isnan newHumidity then
        let s1 = s\<lparr>humReadings := (humReadings s)[readIndex s := newHumidity]\<rparr>
        in s1\<lparr>humidity := average (humReadings s1)\<rparr>
      else s)"

definition control_heater :: "state \<Rightarrow> state" where
  "control_heater s =
     (if freezeGuardEnabled s then
        (if flt (currentTemp s) FREEZE_GUARD_TEMP then
           (digitalWrite HEATER_PIN True s)\<lparr>heaterEnabled := True\<rparr>
         else if fge (currentTemp s) (fadd FREEZE_GUARD_TEMP (Fin 2)) then
           (digitalWrite HEATER_PIN False s)\<lparr>heaterEnabled := False\<rparr>
         else s)
      else
        (if heaterEnabled s \<and> flt (currentTemp s) (targetTemp s) then
           digitalWrite HEATER_PIN True s
         else digitalWrite HEATER_PIN False s))"

text \<open>The body of \<^verbatim>\<open>if (now - lastRead >= SENSOR_READ_INTERVAL)\<close>.\<close>

definition sensor_tick :: "fl \<Rightarrow> fl \<Rightarrow> millis \<Rightarrow> state \<Rightarrow> state" where
  "sensor_tick newTemp newHumidity now s =
     (let s1 = smooth_temp newTemp s;
          s2 = smooth_hum newHumidity s1;
          s3 = s2\<lparr>readIndex := (readIndex s2 + 1) mod SAMPLES\<rparr>;
          s4 = control_heater s3
      in s4\<lparr>lastRead := now\<rparr>)"

text \<open>
  The first pass of \<^verbatim>\<open>loop()\<close> seeds both buffers and then blocks for 8 seconds.
  The temperature is read once; the humidity is read again for every slot, so
  \<open>hum i\<close> is the \<open>i\<close>-th of these readings.
\<close>

definition sensor_seed :: "fl \<Rightarrow> (nat \<Rightarrow> fl) \<Rightarrow> state \<Rightarrow> state" where
  "sensor_seed rawTemp hum s =
     (let initTemp = c_to_f rawTemp;
          s1 = fold (\<lambda>i s. s\<lparr>tempReadings := (tempReadings s)[i := initTemp],
                              humReadings := (humReadings s)[i := hum i]\<rparr>)
                    [0..<SAMPLES] s;
          s2 = delay 8000 s1
      in s2\<lparr>sensorInit := False\<rparr>)"

text \<open>
  The sensor part of one pass of \<^verbatim>\<open>loop()\<close> in normal mode; \<open>now\<close> is the
  \<^verbatim>\<open>millis()\<close> taken at the top of the pass, before any seeding delay.
\<close>

definition loop_sensors ::
  "fl \<Rightarrow> (nat \<Rightarrow> fl) \<Rightarrow> fl \<Rightarrow> fl \<Rightarrow> millis \<Rightarrow> state \<Rightarrow> state" where
  "loop_sensors rawTemp hum newTemp newHumidity now s =
     (let s1 = (if sensorInit s then sensor_seed rawTemp hum s else s)
      in if now - lastRead s1 \<ge> SENSOR_READ_INTERVAL
         then sensor_tick newTemp newHumidity now s1 else s1)"

text \<open>Successive heater evaluations at given smoothed temperatures.\<close>

fun heater_trace :: "state \<Rightarrow> fl list \<Rightarrow> bool list" where
  "heater_trace s [] = []"
| "heater_trace s (t # ts) =
     (let s' = control_heater (s\<lparr>currentTemp := t\<rparr>)
      in heaterEnabled s' # heater_trace s' ts)"

subsection \<open>Persistent store\<close>

definition saveFreezeGuardState :: "bool \<Rightarrow> state \<Rightarrow> state" where
  "saveFreezeGuardState enabled s =
     s\<lparr>eeprom := (eeprom s)(FREEZE_GUARD_ADDR := (if enabled then 1 else 0))\<rparr>"

definition loadFreezeGuardState :: "state \<Rightarrow> state" where
  "loadFreezeGuardState s = s\<lparr>freezeGuardEnabled := (eeprom s FREEZE_GUARD_ADDR = 1)\<rparr>"

text \<open>Both fields are rewritten in full: the bytes of the string, then zero padding.\<close>

definition saveWiFiCredentials :: "byte list \<Rightarrow> byte list \<Rightarrow> state \<Rightarrow> state" where
  "saveWiFiCredentials ssid password s =
     (let e1 = fold (\<lambda>i e. e(SSID_START + i := (if i < length ssid then ssid ! i else 0)))
                    [0..<SSID_MAX_LENGTH] (eeprom s);
          e2 = fold (\<lambda>i e. e(PASS_START + i :=
                               (if i < length password then password ! i else 0)))
                    [0..<PASS_MAX_LENGTH] e1
      in s\<lparr>eeprom := e2\<rparr>)"

text \<open>Every non-zero byte of a field is appended to the string, in address order.\<close>

definition loadWiFiCredentials :: "state \<Rightarrow> state" where
  "loadWiFiCredentials s =
     s\<lparr>storedSSID :=
         filter (\<lambda>c. c \<noteq> 0) (map (\<lambda>i. eeprom s (SSID_START + i)) [0..<SSID_MAX_LENGTH]),
       storedPassword :=
         filter (\<lambda>c. c \<noteq> 0) (map (\<lambda>i. eeprom s (PASS_START + i)) [0..<PASS_MAX_LENGTH])\<rparr>"

subsection \<open>Web handlers\<close>

text \<open>
  Each handler first checks HTTP authentication and returns without touching the state
  when it fails. \<open>temp_arg\<close> is \<^verbatim>\<open>server.arg("temp").toFloat()\<close> when the request
  has the argument; \<open>now\<close> is \<^verbatim>\<open>millis()\<close>.
\<close>

definition handleTarget :: "bool \<Rightarrow> fl option \<Rightarrow> millis \<Rightarrow> state \<Rightarrow> state" where
  "handleTarget authenticated temp_arg now s =
     (if \<not> authenticated then s
      else case temp_arg of
        None \<Rightarrow> s
      | Some change \<Rightarrow>
          let s1 = s\<lparr>targetTemp := fadd (targetTemp s) change\<rparr>;
              s2 = (if flt (targetTemp s1) (Fin 50) then s1\<lparr>targetTemp := Fin 50\<rparr> else s1);
              s3 = (if fgt (targetTemp s2) (Fin 90) then s2\<lparr>targetTemp := Fin 90\<rparr> else s2)
          in announce (TempF (targetTemp s3)) now s3)"

definition handleToggle :: "bool \<Rightarrow> millis \<Rightarrow> state \<Rightarrow> state" where
  "handleToggle authenticated now s =
     (if \<not> authenticated then s
      else if \<not> freezeGuardEnabled s then
        let s1 = s\<lparr>heaterEnabled := \<not> heaterEnabled s\<rparr>;
            s2 = digitalWrite HEATER_PIN (heaterEnabled s1) s1
        in announce (Text (if heaterEnabled s2 then ''HEAT ON'' else ''HEATOFF'')) now s2
      else s)"

definition handleFreezeGuard :: "bool \<Rightarrow> string option \<Rightarrow> millis \<Rightarrow> state \<Rightarrow> state" where
  "handleFreezeGuard authenticated state_arg now s =
     (if \<not> authenticated then s
      else case state_arg of
        None \<Rightarrow> s
      | Some v \<Rightarrow>
          let s1 = s\<lparr>freezeGuardEnabled := (v = ''1'')\<rparr>;
              s2 = saveFreezeGuardState (freezeGuardEnabled s1) s1
          in announce (Text (if freezeGuardEnabled s2 then ''GRD ON'' else ''GRD OFF'')) now s2)"

text \<open>
  The telemetry document of \<^verbatim>\<open>handleData\<close>, as its list of members. \<open>JFixed1 x\<close> is
  the text \<^verbatim>\<open>String(x, 1)\<close> of a number, \<open>JQuoted\<close> a JSON string.
\<close>

datatype json = JQuoted string | JFixed1 fl | JBool bool | JRaw string

definition handleData :: "bool \<Rightarrow> state \<Rightarrow> (string \<times> json) list option" where
  "handleData authenticated s =
     (if \<not> authenticated then None
      else Some
        [(''currentTemp'',
            if isnan (currentTemp s) then JQuoted ''TEMP SENSOR FAULT''
            else JFixed1 (currentTemp s)),
         (''humidity'', JFixed1 (humidity s)),
         (''targetTemp'', JFixed1 (targetTemp s)),
         (''heaterEnabled'', JBool (heaterEnabled s)),
         (''freezeGuardEnabled'', JBool (freezeGuardEnabled s)),
         (''displaySleep'', JBool (displaySleepMode s)),
         (''brightness'',
            if displaySleepMode s then JRaw ''0''
            else JFixed1 (Fin (real (unat (displayBrightness s)) / 255)))])"

subsection \<open>Buttons (\<^verbatim>\<open>handleButtons\<close>)\<close>

text \<open>
  \<^verbatim>\<open>ESP.restart()\<close> does not return: a call of \<^verbatim>\<open>handleButtons\<close> either comes back
  with the new state or ends in a restart, with the state at that moment.
\<close>

datatype outcome = Continue state | Restart state

definition up_edge :: "bool \<Rightarrow> millis \<Rightarrow> state \<Rightarrow> state" where
  "up_edge currentUpState now s =
     (if currentUpState \<noteq> lastUpState s then
        (let s1 =
           (if \<not> currentUpState then s\<lparr>upButtonStart := now, longPressHandled := False\<rparr>
            else if now - upButtonStart s < LONG_PRESS_MS then
              (if \<not> freezeGuardEnabled s then
                 let s2 = s\<lparr>targetTemp := fmin (Fin 90) (fadd (targetTemp s) (Fin 1))\<rparr>
                 in announce (TempF (targetTemp s2)) now s2
               else s)
            else s)
         in s1\<lparr>lastUpState := currentUpState\<rparr>)
      else s)"

definition up_long :: "bool \<Rightarrow> millis \<Rightarrow> state \<Rightarrow> state" where
  "up_long currentUpState now s =
     (if \<not> currentUpState \<and> \<not> longPressHandled s \<and> now - upButtonStart s \<ge> LONG_PRESS_MS
      then
        (let s1 =
           (if \<not> freezeGuardEnabled s then
              let s2 = s\<lparr>heaterEnabled := \<not> heaterEnabled s\<rparr>;
                  s3 = digitalWrite HEATER_PIN (heaterEnabled s2) s2
              in announce (Text (if heaterEnabled s3 then ''HEAT ON'' else ''HEATOFF'')) now s3
            else s)
         in s1\<lparr>longPressHandled := True\<rparr>)
      else s)"

definition down_edge :: "bool \<Rightarrow> millis \<Rightarrow> state \<Rightarrow> state" where
  "down_edge currentDownState now s =
     (if currentDownState \<noteq> lastDownState s then
        (let s1 =
           (if \<not> currentDownState then s\<lparr>downButtonStart := now, longPressHandled := False\<rparr>
            else if now - downButtonStart s < LONG_PRESS_MS then
              (if \<not> freezeGuardEnabled s then
                 let s2 = s\<lparr>targetTemp := fmax (Fin 50) (fsub (targetTemp s) (Fin 1))\<rparr>
                 in announce (TempF (targetTemp s2)) now s2
               else s)
            else s)
         in s1\<lparr>lastDownState := currentDownState\<rparr>)
      else s)"

definition down_long :: "bool \<Rightarrow> millis \<Rightarrow> state \<Rightarrow> state" where
  "down_long currentDownState now s =
     (if \<not> currentDownState \<and> \<not> longPressHandled s
         \<and> now - downButtonStart s \<ge> LONG_PRESS_MS
      then
        (let s1 = s\<lparr>freezeGuardEnabled := \<not> freezeGuardEnabled s\<rparr>;
             s2 = saveFreezeGuardState (freezeGuardEnabled s1) s1;
             s3 = announce (Text (if freezeGuardEnabled s2 then ''GRD ON'' else ''GRD OFF''))
                    now s2
         in s3\<lparr>longPressHandled := True\<rparr>)
      else s)"

definition handleButtons :: "bool \<Rightarrow> bool \<Rightarrow> millis \<Rightarrow> state \<Rightarrow> outcome" where
  "handleButtons currentUpState currentDownState now s0 =
     (let s = (if \<not> currentUpState \<or> \<not> currentDownState
               then s0\<lparr>lastActivityTime := now\<rparr> else s0)
      in
      if displaySleepMode s \<and> (\<not> currentUpState \<or> \<not> currentDownState) then
        Continue (delay 250 (announce (Text ''WAKE'') now (s\<lparr>displaySleepMode := False\<rparr>)))
      else if \<not> displaySleepMode s then
        (let s1 = up_edge currentUpState now s;
             s2 = up_long currentUpState now s1;
             s3 = down_edge currentDownState now s2;
             s4 = down_long currentDownState now s3
         in
         if \<not> currentUpState \<and> \<not> currentDownState
            \<and> now - upButtonStart s4 \<ge> SLEEP_PRESS_MS
            \<and> now - downButtonStart s4 \<ge> SLEEP_PRESS_MS
            \<and> now - upButtonStart s4 < WIFI_RESET_MS
         then
           Continue (delay 250 (announce (Text ''SLEEP'') now (s4\<lparr>displaySleepMode := True\<rparr>)))
         else if \<not> currentUpState \<and> \<not> currentDownState
                 \<and> now - upButtonStart s4 \<ge> WIFI_RESET_MS
                 \<and> now - downButtonStart s4 \<ge> WIFI_RESET_MS
         then
           Restart (saveWiFiCredentials [] [] (delay 1000 (announce (Text ''RESET'') now s4)))
         else Continue s4)
      else Continue s)"

text \<open>
  Successive calls of \<^verbatim>\<open>handleButtons\<close>, one per pass of \<^verbatim>\<open>loop()\<close>, each with the
  two pin levels and the \<^verbatim>\<open>millis()\<close> it reads. A restart ends the run.
\<close>

fun button_ticks :: "state \<Rightarrow> (bool \<times> bool \<times> millis) list \<Rightarrow> outcome" where
  "button_ticks s [] = Continue s"
| "button_ticks s ((up, down, now) # rest) =
     (case handleButtons up down now s of
        Continue s' \<Rightarrow> button_ticks s' rest
      | Restart s' \<Rightarrow> Restart s')"

subsection \<open>Boot (\<^verbatim>\<open>setup\<close>)\<close>

text \<open>
  What \<^verbatim>\<open>setup()\<close> reads from its surroundings: whether the sensor answers at either
  address, whether the display initialises, and \<open>wifi_status k\<close>, which tells
  whether the \<open>k\<close>-th call of \<^verbatim>\<open>WiFi.status()\<close> (counted from 0) returns
  \<^verbatim>\<open>WL_CONNECTED\<close>.
\<close>

record boot_env =
  bme_begin_76 :: bool
  bme_begin_77 :: bool
  display_begin :: bool
  wifi_status :: "nat \<Rightarrow> bool"

definition enterSetupMode :: "state \<Rightarrow> state" where
  "enterSetupMode s = s\<lparr>setupMode := True, isAP := True\<rparr>"

definition setupNormalMode :: "state \<Rightarrow> state" where
  "setupNormalMode s = s\<lparr>setupMode := False, isAP := False\<rparr>"

text \<open>
  The connection loop. Each test of the loop condition calls \<^verbatim>\<open>WiFi.status()\<close> once,
  so the call made with \<open>attempts\<close> delays behind it is call number \<open>attempts\<close>.
\<close>

function wifi_wait :: "(nat \<Rightarrow> bool) \<Rightarrow> nat \<Rightarrow> state \<Rightarrow> nat \<times> state" where
  "wifi_wait status attempts s =
     (if \<not> status attempts \<and> attempts < 30
      then wifi_wait status (attempts + 1) (delay 500 s)
      else (attempts, s))"
  by pat_completeness auto
termination
  by (relation "measure (\<lambda>(status, attempts, s). 30 - attempts)") auto

declare wifi_wait.simps [simp del]

text \<open>
  \<open>None\<close> is the endless \<^verbatim>\<open>while(1)\<close> of a missing sensor. When the display does not
  initialise, \<^verbatim>\<open>setup()\<close> returns at once, before the credentials are read.
\<close>

definition setup_boot :: "boot_env \<Rightarrow> state \<Rightarrow> state option" where
  "setup_boot env s0 =
     (if \<not> bme_begin_76 env \<and> \<not> bme_begin_77 env then None
      else if \<not> display_begin env then Some s0
      else
        let s1 = digitalWrite HEATER_PIN False s0;
            s2 = loadFreezeGuardState s1;
            s3 = loadWiFiCredentials s2
        in
        if length (storedSSID s3) < 2 then Some (enterSetupMode s3)
        else
          (case wifi_wait (wifi_status env) 0 s3 of
             (attempts, s4) \<Rightarrow>
               if wifi_status env (attempts + 1) then Some (setupNormalMode s4)
               else Some (enterSetupMode s4)))"

subsection \<open>Runs of the sketch\<close>

text \<open>The state a call of \<^verbatim>\<open>handleButtons\<close> ends with, restart or not.\<close>

fun state_of :: "outcome \<Rightarrow> state" where
  "state_of (Continue s) = s"
| "state_of (Restart s) = s"

text \<open>
  What can happen between two passes of \<^verbatim>\<open>loop()\<close>: a poll of the buttons, one of
  the web requests that change the control state, or the sensor part of a pass. A run
  ends at the first restart.
\<close>

datatype event =
    ButtonPoll bool bool millis
  | WebTarget bool "fl option" millis
  | WebToggle bool millis
  | WebFreezeGuard bool "string option" millis
  | SensorPass fl "nat \<Rightarrow> fl" fl fl millis

fun apply_event :: "event \<Rightarrow> state \<Rightarrow> outcome" where
  "apply_event (ButtonPoll up down now) s = handleButtons up down now s"
| "apply_event (WebTarget auth arg now) s = Continue (handleTarget auth arg now s)"
| "apply_event (WebToggle auth now) s = Continue (handleToggle auth now s)"
| "apply_event (WebFreezeGuard auth arg now) s = Continue (handleFreezeGuard auth arg now s)"
| "apply_event (SensorPass rawTemp hum newTemp newHumidity now) s =
     Continue (loop_sensors rawTemp hum newTemp newHumidity now s)"

fun run_events :: "state \<Rightarrow> event list \<Rightarrow> outcome" where
  "run_events s [] = Continue s"
| "run_events s (e # es) =
     (case apply_event e s of
        Continue s' \<Rightarrow> run_events s' es
      | Restart s' \<Rightarrow> Restart s')"

text \<open>An event is numeric unless it is a target request whose argument parses to NaN.\<close>

fun numeric_delta :: "event \<Rightarrow> bool" where
  "numeric_delta (WebTarget auth (Some NaN) now) = False"
| "numeric_delta e = True"

subsection \<open>Predicates of the specification\<close>

text \<open>
  The fixed shape of the two arrays and of the write index. \<^verbatim>\<open>loop()\<close> indexes the
  arrays only below \<^verbatim>\<open>SAMPLES\<close>, and every tick keeps this shape.
\<close>

definition buffers_ok :: "state \<Rightarrow> bool" where
  "buffers_ok s = (length (tempReadings s) = SAMPLES \<and> length (humReadings s) = SAMPLES
                   \<and> readIndex s < SAMPLES)"

text \<open>The arithmetic mean as the specification words it, on the real numbers.\<close>

definition arithmetic_mean :: "real list \<Rightarrow> real" where
  "arithmetic_mean rs = sum_list rs / real (length rs)"

text \<open>
  The sum of a list as the loop of the sketch accumulates it in float arithmetic, from
  the left and rounding after every addition; and the lists on which none of these
  additions rounds.
\<close>

fun float_sum :: "real \<Rightarrow> real list \<Rightarrow> real" where
  "float_sum a [] = a"
| "float_sum a (r # rs) = float_sum (f32 (a + r)) rs"

fun sums_exact :: "real \<Rightarrow> real list \<Rightarrow> bool" where
  "sums_exact a [] = True"
| "sums_exact a (r # rs) = (f32 (a + r) = a + r \<and> sums_exact (a + r) rs)"

text \<open>The target temperature lies in [50, 90]; false when it is NaN.\<close>

definition target_in_range :: "state \<Rightarrow> bool" where
  "target_in_range s = (fge (targetTemp s) (Fin 50) \<and> fge (Fin 90) (targetTemp s))"

subsection \<open>Concrete states and inputs for the examples\<close>

text \<open>An erased store, and power-on with the freeze guard on.\<close>

definition blank_eeprom :: "nat \<Rightarrow> byte" where
  "blank_eeprom a = 0"

definition guard_state :: state where
  "guard_state = (power_on blank_eeprom)\<lparr>freezeGuardEnabled := True\<rparr>"

text \<open>Humidity readings for the ten seeding reads: constant, rising, all faulty.\<close>

definition hum_steady :: "nat \<Rightarrow> fl" where
  "hum_steady i = Fin 40"

definition hum_ramp :: "nat \<Rightarrow> fl" where
  "hum_ramp i = Fin (40 + real i)"

definition hum_fault :: "nat \<Rightarrow> fl" where
  "hum_fault i = NaN"

text \<open>
  The state after seeding from 0 degrees Celsius (32 Fahrenheit in every slot), with the
  freeze guard on, and with the heater armed; and the state after seeding from 20
  degrees Celsius (68 Fahrenheit).
\<close>

definition cold_guarded :: state where
  "cold_guarded =
     (sensor_seed (Fin 0) hum_steady (power_on blank_eeprom))\<lparr>freezeGuardEnabled := True\<rparr>"

definition cold_armed :: state where
  "cold_armed =
     (sensor_seed (Fin 0) hum_steady (power_on blank_eeprom))\<lparr>heaterEnabled := True\<rparr>"

definition seeded_68 :: state where
  "seeded_68 = sensor_seed (Fin 20) hum_steady (power_on blank_eeprom)"

text \<open>
  A first pass of \<^verbatim>\<open>loop()\<close> at 5000 ms that seeds from a reading of 20 degrees
  Celsius and whose tick then reads NaN.
\<close>

definition first_pass_fault :: state where
  "first_pass_fault =
     loop_sensors (Fin 20) hum_steady NaN (Fin 40) 5000 (power_on blank_eeprom)"

text \<open>A sensor that has answered NaN to every read since power-on, two ticks in.\<close>

definition never_valid :: state where
  "never_valid =
     sensor_tick NaN NaN 7000
       (loop_sensors NaN hum_fault NaN NaN 5000 (power_on blank_eeprom))"

text \<open>
  Up pressed at 10000 ms and held until 11600 ms, with Down tapped in between: pressed
  at 11500 ms, released at 11550 ms.
\<close>

definition up_held_down_tapped :: "(bool \<times> bool \<times> millis) list" where
  "up_held_down_tapped =
     [(False, True, 10000), (False, True, 11000), (False, False, 11500),
      (False, True, 11550), (True, True, 11600)]"

text \<open>
  Both buttons pressed together at 10000 ms and held: the polls at 10000, 11000 and
  12000 ms, and the state the third one leaves.
\<close>

definition dual_hold :: "(bool \<times> bool \<times> millis) list" where
  "dual_hold = [(False, False, 10000), (False, False, 11000), (False, False, 12000)]"

definition asleep_12000 :: state where
  "asleep_12000 =
     (power_on blank_eeprom)
       \<lparr>heaterEnabled := True, showingStateChange := True,
        stateChangeMessage := Text ''SLEEP'', stateChangeTime := 12000,
        upButtonStart := 10000, downButtonStart := 10000,
        lastUpState := False, lastDownState := False, longPressHandled := True,
        displaySleepMode := True, lastActivityTime := 12000, heaterPin := True,
        effects := [DigitalWrite HEATER_PIN True, Delay 250]\<rparr>"

text \<open>
  A store holding the name \<^verbatim>\<open>home\<close>; a boot where the network is joined at the
  fourth status call; a boot whose display does not initialise; a boot with no sensor.
\<close>

definition home_eeprom :: "nat \<Rightarrow> byte" where
  "home_eeprom a = (if a < 4 then [104, 111, 109, 101] ! a else 0)"

definition slow_wifi :: boot_env where
  "slow_wifi = \<lparr>bme_begin_76 = True, bme_begin_77 = False, display_begin = True,
                 wifi_status = (\<lambda>k. 3 \<le> k)\<rparr>"

definition no_display :: boot_env where
  "no_display = \<lparr>bme_begin_76 = True, bme_begin_77 = False, display_begin = False,
                  wifi_status = (\<lambda>k. False)\<rparr>"

definition no_sensor :: boot_env where
  "no_sensor = \<lparr>bme_begin_76 = False, bme_begin_77 = False, display_begin = True,
                  wifi_status = (\<lambda>k. False)\<rparr>"

section \<open>Properties\<close>

subsection \<open>Evaluation helpers and frame lemmas\<close>

lemma replicate_SAMPLES: "replicate SAMPLES x = [x, x, x, x, x, x, x, x, x, x]"
  by (simp add: numeral_eq_Suc)

lemma round_even_of_int: "round_even (real_of_int n) = n"
  by (simp add: round_even_def)

text \<open>Integers below \<open>2 ^ 24\<close> in magnitude are floats: rounding leaves them alone.\<close>

lemma f32_int:
  assumes "x \<in> \<int>" and "\<bar>x\<bar> < 2 ^ 24"
  shows "f32 x = x"
proof (cases "x = 0")
  case True
  then show ?thesis by (simp add: f32_def round_even_def)
next
  case False
  obtain m :: int where m: "x = real_of_int m"
    using assms(1) by (auto elim: Ints_cases)
  have m1: "1 \<le> \<bar>x\<bar>"
    using False by (simp add: m)
  define e where "e = \<lfloor>log 2 \<bar>x\<bar>\<rfloor>"
  have e0: "0 \<le> e"
    using m1 by (simp add: e_def)
  have "log 2 \<bar>x\<bar> < log 2 (2 ^ 24)"
    using assms(2) m1 by (subst log_less_cancel_iff) simp_all
  moreover have "log 2 ((2::real) ^ 24) = 24"
    by (subst log_nat_power) simp_all
  ultimately have "log 2 \<bar>x\<bar> < 24"
    by (simp only:)
  then have e23: "e \<le> 23"
    unfolding e_def by linarith
  define k where "k = nat (23 - e)"
  have ek: "real_of_int e - 23 = - real k"
    using e23 by (simp add: k_def)
  have ulp: "2 powr (real_of_int e - 23) = 1 / 2 ^ k"
    by (simp add: ek powr_minus powr_realpow divide_simps)
  have mx: "max e (- 126) = e"
    using e0 by simp
  have q: "x / (1 / 2 ^ k) = real_of_int (m * 2 ^ k)"
    by (simp add: m)
  have "f32 x = (1 / 2 ^ k) * real_of_int (round_even (x / (1 / 2 ^ k)))"
    unfolding f32_def Let_def e_def[symmetric] mx ulp ..
  also have "\<dots> = (1 / 2 ^ k) * real_of_int (m * 2 ^ k)"
    unfolding q round_even_of_int ..
  also have "\<dots> = x"
    by (simp add: m)
  finally show ?thesis .
qed

lemma c_to_f_Fin: "c_to_f (Fin c) = Fin (f32 (f32 (f32 (c * 9) / 5) + 32))"
  by (simp add: c_to_f_def)

lemma c_to_f_isnan: "isnan (c_to_f x) = isnan x"
  by (cases x) (simp_all add: c_to_f_def)

lemma control_heater_currentTemp: "currentTemp (control_heater s) = currentTemp s"
  by (simp add: control_heater_def digitalWrite_def)

lemma smooth_temp_keeps:
  "freezeGuardEnabled (smooth_temp t s) = freezeGuardEnabled s"
  "heaterEnabled (smooth_temp t s) = heaterEnabled s"
  "heaterPin (smooth_temp t s) = heaterPin s"
  "targetTemp (smooth_temp t s) = targetTemp s"
  "readIndex (smooth_temp t s) = readIndex s"
  "humReadings (smooth_temp t s) = humReadings s"
  "humidity (smooth_temp t s) = humidity s"
  by (simp_all add: smooth_temp_def Let_def)

lemma smooth_hum_keeps:
  "freezeGuardEnabled (smooth_hum h s) = freezeGuardEnabled s"
  "heaterEnabled (smooth_hum h s) = heaterEnabled s"
  "heaterPin (smooth_hum h s) = heaterPin s"
  "targetTemp (smooth_hum h s) = targetTemp s"
  "readIndex (smooth_hum h s) = readIndex s"
  "tempReadings (smooth_hum h s) = tempReadings s"
  "currentTemp (smooth_hum h s) = currentTemp s"
  by (simp_all add: smooth_hum_def Let_def)

lemma sensor_tick_control:
  "sensor_tick t h now s =
     (control_heater ((smooth_hum h (smooth_temp t s))
        \<lparr>readIndex := (readIndex s + 1) mod SAMPLES\<rparr>))\<lparr>lastRead := now\<rparr>"
  by (simp add: sensor_tick_def Let_def smooth_temp_keeps smooth_hum_keeps)

lemma seed_fold:
  "n \<le> length (tempReadings s) \<Longrightarrow> n \<le> length (humReadings s) \<Longrightarrow>
   fold (\<lambda>i s. s\<lparr>tempReadings := (tempReadings s)[i := x],
                   humReadings := (humReadings s)[i := hum i]\<rparr>) [0..<n] s
   = s\<lparr>tempReadings := replicate n x @ drop n (tempReadings s),
        humReadings := map hum [0..<n] @ drop n (humReadings s)\<rparr>"
proof (induction n)
  case 0
  then show ?case by simp
next
  case (Suc n)
  have a: "(replicate n x @ drop n (tempReadings s))[n := x]
           = replicate (Suc n) x @ drop (Suc n) (tempReadings s)"
    using Suc.prems
    by (simp add: list_update_append replicate_append_same flip: Cons_nth_drop_Suc)
  have b: "(map hum [0..<n] @ drop n (humReadings s))[n := hum n]
           = map hum [0..<Suc n] @ drop (Suc n) (humReadings s)"
    using Suc.prems
    by (simp add: list_update_append flip: Cons_nth_drop_Suc)
  show ?case using Suc a b by simp
qed


lemma sensor_seed_eq:
  assumes "length (tempReadings s) = SAMPLES" "length (humReadings s) = SAMPLES"
  shows "sensor_seed rawTemp hum s =
           s\<lparr>tempReadings := replicate SAMPLES (c_to_f rawTemp),
             humReadings := map hum [0..<SAMPLES],
             effects := effects s @ [Delay 8000], sensorInit := False\<rparr>"
  using assms seed_fold[where n=SAMPLES and s=s and x="c_to_f rawTemp" and hum=hum]
  by (simp add: sensor_seed_def Let_def delay_def)

lemma power_on_lengths:
  "length (tempReadings (power_on e)) = SAMPLES" "length (humReadings (power_on e)) = SAMPLES"
  by (simp_all add: power_on_def)

subsection \<open>Freeze guard: hysteresis\<close>

lemma control_heater_freeze:
  assumes "freezeGuardEnabled s"
  shows "flt (currentTemp s) (Fin 38) \<Longrightarrow>
           heaterEnabled (control_heater s) \<and> heaterPin (control_heater s)"
    and "fge (currentTemp s) (Fin 40) \<Longrightarrow>
           \<not> heaterEnabled (control_heater s) \<and> \<not> heaterPin (control_heater s)"
    and "fge (currentTemp s) (Fin 38) \<Longrightarrow> flt (currentTemp s) (Fin 40) \<Longrightarrow>
           control_heater s = s"
  using assms by (cases "currentTemp s"; simp add: control_heater_def digitalWrite_def)+

lemma heater_trace_scenario:
  "freezeGuardEnabled s \<Longrightarrow>
     heater_trace s [Fin 39.5, Fin 37, Fin 39, Fin 41] = [heaterEnabled s, True, True, False]"
  by (simp add: control_heater_def digitalWrite_def Let_def)

text \<open>
  C1. With the freeze guard enabled, a sensor tick leaves the heater on when the
  smoothed temperature it has just computed is below 38.0, off when it is 40.0 or more,
  and as it was (flag and pin) when it lies in [38.0, 40.0). Evaluating the heater at
  the smoothed temperatures 39.5, 37.0, 39.0, 41.0 gives the previous value, then
  on, on, off.
\<close>

theorem freeze_guard_hysteresis:
  assumes "freezeGuardEnabled s" and "s' = sensor_tick newTemp newHumidity now s"
  shows "(flt (currentTemp s') (Fin 38) \<longrightarrow> heaterEnabled s' \<and> heaterPin s')
       \<and> (fge (currentTemp s') (Fin 40) \<longrightarrow> \<not> heaterEnabled s' \<and> \<not> heaterPin s')
       \<and> (fge (currentTemp s') (Fin 38) \<and> flt (currentTemp s') (Fin 40) \<longrightarrow>
            heaterEnabled s' = heaterEnabled s \<and> heaterPin s' = heaterPin s)
       \<and> heater_trace s [Fin 39.5, Fin 37, Fin 39, Fin 41]
           = [heaterEnabled s, True, True, False]"
proof -
  define m where
    "m = (smooth_hum newHumidity (smooth_temp newTemp s))
           \<lparr>readIndex := (readIndex s + 1) mod SAMPLES\<rparr>"
  have s': "s' = (control_heater m)\<lparr>lastRead := now\<rparr>"
    by (simp add: assms(2) sensor_tick_control m_def)
  have fg: "freezeGuardEnabled m"
    by (simp add: m_def smooth_temp_keeps smooth_hum_keeps assms(1))
  have old: "heaterEnabled m = heaterEnabled s" "heaterPin m = heaterPin s"
    by (simp_all add: m_def smooth_temp_keeps smooth_hum_keeps)
  have ct: "currentTemp s' = currentTemp m"
    by (simp add: s' control_heater_currentTemp)
  show ?thesis
    using control_heater_freeze[OF fg] heater_trace_scenario[OF assms(1)] old
    by (auto simp: s' ct control_heater_currentTemp)
qed

lemma cold_tick_temp:
  assumes "s = (sensor_seed (Fin 0) hum (power_on e))\<lparr>freezeGuardEnabled := g, heaterEnabled := h\<rparr>"
  shows "currentTemp (sensor_tick (Fin 0) (Fin 40) 7000 s) = Fin 32"
  by (simp add: assms sensor_tick_control control_heater_currentTemp smooth_hum_keeps
      smooth_temp_def sensor_seed_eq power_on_lengths c_to_f_def average_def Let_def
      replicate_SAMPLES f32_int)
     (simp add: power_on_def f32_int)

theorem freeze_guard_hysteresis_witness:
  "freezeGuardEnabled cold_guarded
   \<and> currentTemp (sensor_tick (Fin 0) (Fin 40) 7000 cold_guarded) = Fin 32
   \<and> heaterEnabled (sensor_tick (Fin 0) (Fin 40) 7000 cold_guarded)
   \<and> heater_trace cold_guarded [Fin 39.5, Fin 37, Fin 39, Fin 41]
       = [False, True, True, False]"
proof -
  have fg: "freezeGuardEnabled cold_guarded"
    by (simp add: cold_guarded_def)
  have old: "\<not> heaterEnabled cold_guarded"
    by (simp add: cold_guarded_def sensor_seed_eq power_on_lengths) (simp add: power_on_def)
  have ct: "currentTemp (sensor_tick (Fin 0) (Fin 40) 7000 cold_guarded) = Fin 32"
    by (rule cold_tick_temp[where g = True and h = False and hum = hum_steady
          and e = blank_eeprom])
       (simp add: cold_guarded_def sensor_seed_eq power_on_lengths, simp add: power_on_def)
  show ?thesis
    using freeze_guard_hysteresis[OF fg refl, of "Fin 0" "Fin 40" 7000] fg ct old
    by simp
qed

subsection \<open>Manual regime: one-sided comparison\<close>

text \<open>
  C2. With the freeze guard disabled, a sensor tick writes to the heater pin exactly
  the value of (armed and smoothed temperature below target), whatever the pin was
  before; the armed flag and the target are left alone.
\<close>

theorem manual_regime_output:
  assumes "\<not> freezeGuardEnabled s" and "s' = sensor_tick newTemp newHumidity now s"
  shows "heaterPin s' = (heaterEnabled s \<and> flt (currentTemp s') (targetTemp s))
       \<and> heaterEnabled s' = heaterEnabled s \<and> targetTemp s' = targetTemp s
       \<and> heaterPin (sensor_tick newTemp newHumidity now (s\<lparr>heaterPin := p\<rparr>)) = heaterPin s'"
  using assms
  by (simp add: sensor_tick_control control_heater_def digitalWrite_def
      smooth_temp_keeps smooth_hum_keeps smooth_temp_def smooth_hum_def Let_def)

theorem manual_regime_output_witness:
  "\<not> freezeGuardEnabled cold_armed
   \<and> currentTemp (sensor_tick (Fin 0) (Fin 40) 7000 cold_armed) = Fin 32
   \<and> heaterPin (sensor_tick (Fin 0) (Fin 40) 7000 cold_armed)
   \<and> heaterPin (sensor_tick (Fin 0) (Fin 40) 7000 (cold_armed\<lparr>heaterPin := True\<rparr>))"
proof -
  have fg: "\<not> freezeGuardEnabled cold_armed"
    and armed: "heaterEnabled cold_armed" and target: "targetTemp cold_armed = Fin 72"
    by (simp_all add: cold_armed_def sensor_seed_eq power_on_lengths) (simp_all add: power_on_def)
  have ct: "currentTemp (sensor_tick (Fin 0) (Fin 40) 7000 cold_armed) = Fin 32"
    by (rule cold_tick_temp[where g = False and h = True and hum = hum_steady
          and e = blank_eeprom])
       (simp add: cold_armed_def sensor_seed_eq power_on_lengths, simp add: power_on_def)
  show ?thesis
    using manual_regime_output[OF fg refl, of "Fin 0" "Fin 40" 7000 True] fg ct armed target
    by simp
qed

subsection \<open>Smoothing buffers\<close>

lemma foldl_fadd32_Fin:
  "foldl (\<lambda>sum x. fadd32 sum x) (Fin a) (map Fin rs) = Fin (float_sum a rs)"
  by (induction rs arbitrary: a) simp_all

lemma average_float:
  "length rs = SAMPLES \<Longrightarrow> average (map Fin rs) = Fin (f32 (float_sum 0 rs / 10))"
  by (simp add: average_def foldl_fadd32_Fin)

lemma float_sum_exact: "sums_exact a rs \<Longrightarrow> float_sum a rs = a + sum_list rs"
  by (induction rs arbitrary: a) (simp_all add: add.assoc)

lemma average_exact:
  assumes "length rs = SAMPLES" and "sums_exact 0 rs"
    and "f32 (arithmetic_mean rs) = arithmetic_mean rs"
  shows "average (map Fin rs) = Fin (arithmetic_mean rs)"
  using assms by (simp add: average_float float_sum_exact arithmetic_mean_def)

lemma control_heater_keeps:
  "tempReadings (control_heater s) = tempReadings s"
  "humReadings (control_heater s) = humReadings s"
  "readIndex (control_heater s) = readIndex s"
  "humidity (control_heater s) = humidity s"
  "targetTemp (control_heater s) = targetTemp s"
  by (simp_all add: control_heater_def digitalWrite_def)

lemma sensor_tick_fields:
  "readIndex (sensor_tick t h now s) = (readIndex s + 1) mod SAMPLES"
  "tempReadings (sensor_tick t h now s) = tempReadings (smooth_temp t s)"
  "currentTemp (sensor_tick t h now s) = currentTemp (smooth_temp t s)"
  "humReadings (sensor_tick t h now s) = humReadings (smooth_hum h (smooth_temp t s))"
  "humidity (sensor_tick t h now s) = humidity (smooth_hum h (smooth_temp t s))"
  by (simp_all add: sensor_tick_control control_heater_keeps control_heater_currentTemp smooth_hum_keeps)

lemma sensor_tick_buffers_ok: "buffers_ok s \<Longrightarrow> buffers_ok (sensor_tick t h now s)"
  by (simp add: buffers_ok_def sensor_tick_fields smooth_temp_def smooth_hum_def Let_def)

text \<open>
  C3, in the form the code satisfies. A sensor tick advances the one shared index by
  one modulo 10, whatever the two readings are. A reading that is a number overwrites
  its channel's slot at the old index (the temperature after \<open>c * 9 / 5 + 32\<close> in float
  arithmetic) and the channel's smoothed value becomes the mean of the ten slots as
  float arithmetic computes it: the slots added from the left, then divided by 10,
  rounding after every operation. It is the arithmetic mean whenever none of these
  operations rounds. A NaN reading leaves both the slot and the smoothed value of its
  channel as they were, so the smoothed value is still the mean of the buffer whenever
  it was before the tick.
\<close>

theorem smoothing_tick:
  assumes "buffers_ok s" and "s' = sensor_tick newTemp newHumidity now s"
  shows "readIndex s' = (readIndex s + 1) mod SAMPLES \<and> buffers_ok s'
       \<and> (\<not> isnan newTemp \<longrightarrow>
            tempReadings s' = (tempReadings s)[readIndex s := c_to_f newTemp]
            \<and> currentTemp s' = average (tempReadings s'))
       \<and> (isnan newTemp \<longrightarrow>
            tempReadings s' = tempReadings s \<and> currentTemp s' = currentTemp s
            \<and> (currentTemp s = average (tempReadings s) \<longrightarrow>
                 currentTemp s' = average (tempReadings s')))
       \<and> (\<not> isnan newHumidity \<longrightarrow>
            humReadings s' = (humReadings s)[readIndex s := newHumidity]
            \<and> humidity s' = average (humReadings s'))
       \<and> (isnan newHumidity \<longrightarrow>
            humReadings s' = humReadings s \<and> humidity s' = humidity s
            \<and> (humidity s = average (humReadings s) \<longrightarrow>
                 humidity s' = average (humReadings s')))
       \<and> (\<forall>c. newTemp = Fin c \<longrightarrow>
            tempReadings s' ! readIndex s = Fin (f32 (f32 (f32 (c * 9) / 5) + 32)))
       \<and> (\<forall>rs. tempReadings s' = map Fin rs \<longrightarrow>
            average (tempReadings s') = Fin (f32 (float_sum 0 rs / 10))
            \<and> (sums_exact 0 rs \<and> f32 (arithmetic_mean rs) = arithmetic_mean rs \<longrightarrow>
                 average (tempReadings s') = Fin (arithmetic_mean rs)))
       \<and> (\<forall>rs. humReadings s' = map Fin rs \<longrightarrow>
            average (humReadings s') = Fin (f32 (float_sum 0 rs / 10))
            \<and> (sums_exact 0 rs \<and> f32 (arithmetic_mean rs) = arithmetic_mean rs \<longrightarrow>
                 average (humReadings s') = Fin (arithmetic_mean rs)))"
proof -
  have ok: "buffers_ok s'"
    using assms sensor_tick_buffers_ok by simp
  have idx: "readIndex s < length (tempReadings s)"
    using assms(1) by (simp add: buffers_ok_def)
  have mean: "average xs = Fin (f32 (float_sum 0 rs / 10))
            \<and> (sums_exact 0 rs \<and> f32 (arithmetic_mean rs) = arithmetic_mean rs \<longrightarrow>
                 average xs = Fin (arithmetic_mean rs))"
    if "xs = map Fin rs" and "length xs = SAMPLES" for xs rs
  proof -
    have len: "length rs = SAMPLES"
      using that by simp
    show ?thesis
      using average_float[OF len] average_exact[OF len] that(1) by simp
  qed
  have mT: "\<forall>rs. tempReadings s' = map Fin rs \<longrightarrow>
            average (tempReadings s') = Fin (f32 (float_sum 0 rs / 10))
            \<and> (sums_exact 0 rs \<and> f32 (arithmetic_mean rs) = arithmetic_mean rs \<longrightarrow>
                 average (tempReadings s') = Fin (arithmetic_mean rs))"
  proof (intro allI impI)
    fix rs assume a: "tempReadings s' = map Fin rs"
    have l: "length (tempReadings s') = SAMPLES"
      using ok by (simp add: buffers_ok_def)
    show "average (tempReadings s') = Fin (f32 (float_sum 0 rs / 10))
            \<and> (sums_exact 0 rs \<and> f32 (arithmetic_mean rs) = arithmetic_mean rs \<longrightarrow>
                 average (tempReadings s') = Fin (arithmetic_mean rs))"
      by (rule mean[OF a l])
  qed
  have mH: "\<forall>rs. humReadings s' = map Fin rs \<longrightarrow>
            average (humReadings s') = Fin (f32 (float_sum 0 rs / 10))
            \<and> (sums_exact 0 rs \<and> f32 (arithmetic_mean rs) = arithmetic_mean rs \<longrightarrow>
                 average (humReadings s') = Fin (arithmetic_mean rs))"
  proof (intro allI impI)
    fix rs assume a: "humReadings s' = map Fin rs"
    have l: "length (humReadings s') = SAMPLES"
      using ok by (simp add: buffers_ok_def)
    show "average (humReadings s') = Fin (f32 (float_sum 0 rs / 10))
            \<and> (sums_exact 0 rs \<and> f32 (arithmetic_mean rs) = arithmetic_mean rs \<longrightarrow>
                 average (humReadings s') = Fin (arithmetic_mean rs))"
      by (rule mean[OF a l])
  qed
  have rest: "readIndex s' = (readIndex s + 1) mod SAMPLES
       \<and> (\<not> isnan newTemp \<longrightarrow>
            tempReadings s' = (tempReadings s)[readIndex s := c_to_f newTemp]
            \<and> currentTemp s' = average (tempReadings s'))
       \<and> (isnan newTemp \<longrightarrow>
            tempReadings s' = tempReadings s \<and> currentTemp s' = currentTemp s
            \<and> (currentTemp s = average (tempReadings s) \<longrightarrow>
                 currentTemp s' = average (tempReadings s')))
       \<and> (\<not> isnan newHumidity \<longrightarrow>
            humReadings s' = (humReadings s)[readIndex s := newHumidity]
            \<and> humidity s' = average (humReadings s'))
       \<and> (isnan newHumidity \<longrightarrow>
            humReadings s' = humReadings s \<and> humidity s' = humidity s
            \<and> (humidity s = average (humReadings s) \<longrightarrow>
                 humidity s' = average (humReadings s')))
       \<and> (\<forall>c. newTemp = Fin c \<longrightarrow>
            tempReadings s' ! readIndex s = Fin (f32 (f32 (f32 (c * 9) / 5) + 32)))"
    using idx
    by (simp add: assms(2) sensor_tick_fields smooth_temp_def smooth_hum_def Let_def c_to_f_Fin)
  show ?thesis using ok mT mH rest by blast
qed

subsection \<open>Seeding\<close>

lemma buffers_ok_power_on: "buffers_ok (power_on e)"
  by (simp add: buffers_ok_def power_on_def)

lemma sensor_tick_effects: "\<exists>ws. effects (sensor_tick t h now s) = effects s @ ws"
  by (simp add: sensor_tick_control control_heater_def digitalWrite_def smooth_temp_def smooth_hum_def Let_def)

text \<open>
  C8, in the form the code satisfies. Seeding from a temperature reading that is a number fills the ten
  temperature slots with that one reading in Fahrenheit; humidity slot \<open>i\<close> receives
  the \<open>i\<close>-th of ten successive humidity readings. Seeding touches neither the heater
  nor the smoothed temperature, and its 8000 ms delay is the first effect of the sensor
  part of the first pass, ahead of any write to the heater pin.
\<close>

theorem seeding:
  assumes "length (tempReadings s) = SAMPLES" and "length (humReadings s) = SAMPLES"
    and "\<not> isnan rawTemp" and "s' = sensor_seed rawTemp hum s"
  shows "tempReadings s' = replicate SAMPLES (c_to_f rawTemp) \<and> \<not> isnan (c_to_f rawTemp)
       \<and> humReadings s' = map hum [0..<SAMPLES]
       \<and> \<not> sensorInit s' \<and> effects s' = effects s @ [Delay 8000]
       \<and> heaterPin s' = heaterPin s \<and> heaterEnabled s' = heaterEnabled s
       \<and> currentTemp s' = currentTemp s
       \<and> (sensorInit s \<longrightarrow>
            (\<exists>ws. effects (loop_sensors rawTemp hum newTemp newHumidity now s)
                   = effects s @ Delay 8000 # ws))"
proof -
  have eq: "s' = s\<lparr>tempReadings := replicate SAMPLES (c_to_f rawTemp),
             humReadings := map hum [0..<SAMPLES],
             effects := effects s @ [Delay 8000], sensorInit := False\<rparr>"
    using assms sensor_seed_eq by simp
  have loop: "sensorInit s \<Longrightarrow>
       \<exists>ws. effects (loop_sensors rawTemp hum newTemp newHumidity now s) = effects s @ Delay 8000 # ws"
  proof -
    assume si: "sensorInit s"
    define z where "z = sensor_seed rawTemp hum s"
    have ez: "effects z = effects s @ [Delay 8000]"
      using assms(1,2) by (simp add: z_def sensor_seed_eq)
    obtain ws where ws: "effects (sensor_tick newTemp newHumidity now z) = effects z @ ws"
      using sensor_tick_effects by blast
    have "loop_sensors rawTemp hum newTemp newHumidity now s = sensor_tick newTemp newHumidity now z
          \<or> loop_sensors rawTemp hum newTemp newHumidity now s = z"
      using si by (simp add: loop_sensors_def Let_def z_def)
    then show ?thesis
      using ws ez by auto
  qed
  show ?thesis using loop assms(3) by (simp add: eq c_to_f_isnan)
qed

theorem seeding_witness:
  "length (tempReadings (power_on blank_eeprom)) = SAMPLES
   \<and> length (humReadings (power_on blank_eeprom)) = SAMPLES
   \<and> \<not> isnan (Fin 20) \<and> sensorInit (power_on blank_eeprom)
   \<and> tempReadings (sensor_seed (Fin 20) hum_ramp (power_on blank_eeprom)) = replicate SAMPLES (Fin 68)
   \<and> humReadings (sensor_seed (Fin 20) hum_ramp (power_on blank_eeprom)) = map hum_ramp [0..<SAMPLES]
   \<and> effects (sensor_seed (Fin 20) hum_ramp (power_on blank_eeprom)) = [Delay 8000]"
proof -
  have valid: "\<not> isnan (Fin 20)"
    by simp
  show ?thesis
    using seeding[OF power_on_lengths(1) power_on_lengths(2) valid refl,
        where hum = hum_ramp] valid
    by (simp add: power_on_def c_to_f_def f32_int)
qed

text \<open>
  A NaN first reading is seeded into all ten temperature slots, and ten different
  humidity readings give ten different slots, not ten copies of the first.
\<close>

theorem seeding_counterexample:
  "tempReadings (sensor_seed NaN hum_ramp (power_on blank_eeprom)) = replicate SAMPLES NaN
   \<and> humReadings (sensor_seed NaN hum_ramp (power_on blank_eeprom))
       = [Fin 40, Fin 41, Fin 42, Fin 43, Fin 44, Fin 45, Fin 46, Fin 47, Fin 48, Fin 49]
   \<and> humReadings (sensor_seed NaN hum_ramp (power_on blank_eeprom)) \<noteq> replicate SAMPLES (Fin 40)"
  by (simp add: sensor_seed_eq power_on_lengths c_to_f_def hum_ramp_def upt_rec replicate_SAMPLES)

lemma first_pass_fault_eq:
  "first_pass_fault = sensor_tick NaN (Fin 40) 5000
      ((power_on blank_eeprom)\<lparr>tempReadings := replicate SAMPLES (Fin 68),
             humReadings := map hum_steady [0..<SAMPLES],
             effects := [Delay 8000], sensorInit := False\<rparr>)"
  by (simp add: first_pass_fault_def loop_sensors_def Let_def sensor_seed_eq power_on_lengths
      c_to_f_def f32_int)
     (simp add: power_on_def)

text \<open>
  Seeded at 68 degrees Fahrenheit, a first tick with a NaN reading reports 0.0 while
  the mean of the untouched buffer is 68.
\<close>

theorem stale_average_counterexample:
  "tempReadings first_pass_fault = replicate SAMPLES (Fin 68)
   \<and> average (tempReadings first_pass_fault) = Fin 68
   \<and> currentTemp first_pass_fault = Fin 0"
  by (simp add: first_pass_fault_eq sensor_tick_fields smooth_temp_def)
     (simp add: power_on_def average_def replicate_SAMPLES f32_int)

lemma seeded_68_eq:
  "seeded_68 = (power_on blank_eeprom)\<lparr>tempReadings := replicate SAMPLES (Fin 68),
             humReadings := map hum_steady [0..<SAMPLES],
             effects := [Delay 8000], sensorInit := False\<rparr>"
  by (simp add: seeded_68_def sensor_seed_eq power_on_lengths c_to_f_def f32_int)
     (simp add: power_on_def)

text \<open>
  Seeded at 68 degrees Fahrenheit, a tick that reads 70 degrees Celsius and a faulty
  humidity: the slot becomes 158, the smoothed temperature 77, the humidity stays.
\<close>

theorem smoothing_tick_witness:
  "buffers_ok seeded_68
   \<and> readIndex (sensor_tick (Fin 70) NaN 7000 seeded_68) = 1
   \<and> tempReadings (sensor_tick (Fin 70) NaN 7000 seeded_68) ! 0 = Fin 158
   \<and> currentTemp (sensor_tick (Fin 70) NaN 7000 seeded_68) = Fin 77
   \<and> humidity (sensor_tick (Fin 70) NaN 7000 seeded_68) = Fin 0"
proof -
  have ok: "buffers_ok seeded_68"
    by (simp add: seeded_68_eq buffers_ok_def) (simp add: power_on_def)
  have old: "readIndex seeded_68 = 0" "humidity seeded_68 = Fin 0"
    "tempReadings seeded_68 = replicate SAMPLES (Fin 68)"
    by (simp_all add: seeded_68_eq) (simp_all add: power_on_def)
  have new: "c_to_f (Fin 70) = Fin 158"
    by (simp add: c_to_f_def f32_int)
  have avg: "average ((replicate SAMPLES (Fin 68))[0 := Fin 158]) = Fin 77"
    by (simp add: replicate_SAMPLES average_def f32_int)
  show ?thesis
    using smoothing_tick[OF ok refl, where newTemp = "Fin 70" and newHumidity = NaN
        and now = 7000] ok
    by (simp add: old new avg)
qed

subsection \<open>Telemetry of the temperature\<close>

lemma never_valid_eq:
  "never_valid = sensor_tick NaN NaN 7000 (sensor_tick NaN NaN 5000
      ((power_on blank_eeprom)\<lparr>tempReadings := replicate SAMPLES NaN,
             humReadings := map hum_fault [0..<SAMPLES],
             effects := [Delay 8000], sensorInit := False\<rparr>))"
  by (simp add: never_valid_def loop_sensors_def Let_def sensor_seed_eq power_on_lengths c_to_f_def)
     (simp add: power_on_def)

text \<open>
  C7, as the code behaves. With NaN from every read since power-on, the
  buffer holds only NaN, yet \<open>currentTemp\<close> keeps its initial 0.0 and the telemetry
  member is the number 0.0, not the fault text.
\<close>

theorem telemetry_without_valid_sample:
  "tempReadings never_valid = replicate SAMPLES NaN
   \<and> currentTemp never_valid = Fin 0
   \<and> map_of (the (handleData True never_valid)) ''currentTemp'' = Some (JFixed1 (Fin 0))"
  by (simp add: never_valid_eq sensor_tick_fields smooth_temp_def handleData_def)
     (simp add: power_on_def)

subsection \<open>Target temperature\<close>

lemma target_in_range_iff:
  "target_in_range s = (\<exists>x. targetTemp s = Fin x \<and> 50 \<le> x \<and> x \<le> 90)"
  by (cases "targetTemp s") (simp_all add: target_in_range_def)

lemma handleTarget_range:
  "target_in_range s \<Longrightarrow> target_in_range (handleTarget auth None now s)"
  "target_in_range s \<Longrightarrow> target_in_range (handleTarget auth (Some (Fin d)) now s)"
  by (auto simp: target_in_range_iff handleTarget_def announce_def Let_def)

lemma up_edge_range: "target_in_range s \<Longrightarrow> target_in_range (up_edge u now s)"
  by (auto simp: target_in_range_iff up_edge_def announce_def Let_def fmin_def)

lemma down_edge_range: "target_in_range s \<Longrightarrow> target_in_range (down_edge u now s)"
  by (auto simp: target_in_range_iff down_edge_def announce_def Let_def fmax_def)

lemma up_long_target: "targetTemp (up_long u now s) = targetTemp s"
  by (simp add: up_long_def announce_def digitalWrite_def Let_def)

lemma down_long_target: "targetTemp (down_long u now s) = targetTemp s"
  by (simp add: down_long_def announce_def saveFreezeGuardState_def Let_def)

lemma saveWiFiCredentials_target: "targetTemp (saveWiFiCredentials a b s) = targetTemp s"
  by (simp add: saveWiFiCredentials_def Let_def)

lemma handleButtons_target:
  "targetTemp (state_of (handleButtons u d now s)) =
     (if displaySleepMode s then targetTemp s
      else targetTemp (down_edge d now (up_long u now (up_edge u now
             (if \<not> u \<or> \<not> d then s\<lparr>lastActivityTime := now\<rparr> else s)))))"
  by (simp add: handleButtons_def Let_def delay_def announce_def down_long_target
      saveWiFiCredentials_target)


lemma up_edge_frame:
  "lastDownState (up_edge u now s) = lastDownState s"
  "downButtonStart (up_edge u now s) = downButtonStart s"
  "freezeGuardEnabled (up_edge u now s) = freezeGuardEnabled s"
  "heaterEnabled (up_edge u now s) = heaterEnabled s"
  "displaySleepMode (up_edge u now s) = displaySleepMode s"
  "eeprom (up_edge u now s) = eeprom s"
  "effects (up_edge u now s) = effects s"
  "heaterPin (up_edge u now s) = heaterPin s"
  by (simp_all add: up_edge_def announce_def Let_def)

lemma up_long_frame:
  "lastDownState (up_long u now s) = lastDownState s"
  "downButtonStart (up_long u now s) = downButtonStart s"
  "lastUpState (up_long u now s) = lastUpState s"
  "upButtonStart (up_long u now s) = upButtonStart s"
  "freezeGuardEnabled (up_long u now s) = freezeGuardEnabled s"
  "targetTemp (up_long u now s) = targetTemp s"
  "displaySleepMode (up_long u now s) = displaySleepMode s"
  "eeprom (up_long u now s) = eeprom s"
  by (simp_all add: up_long_def announce_def digitalWrite_def Let_def)

lemma down_edge_frame:
  "lastUpState (down_edge d now s) = lastUpState s"
  "upButtonStart (down_edge d now s) = upButtonStart s"
  "freezeGuardEnabled (down_edge d now s) = freezeGuardEnabled s"
  "heaterEnabled (down_edge d now s) = heaterEnabled s"
  "displaySleepMode (down_edge d now s) = displaySleepMode s"
  "eeprom (down_edge d now s) = eeprom s"
  "effects (down_edge d now s) = effects s"
  "heaterPin (down_edge d now s) = heaterPin s"
  by (simp_all add: down_edge_def announce_def Let_def)

lemma down_long_frame:
  "lastUpState (down_long d now s) = lastUpState s"
  "upButtonStart (down_long d now s) = upButtonStart s"
  "lastDownState (down_long d now s) = lastDownState s"
  "downButtonStart (down_long d now s) = downButtonStart s"
  "heaterEnabled (down_long d now s) = heaterEnabled s"
  "targetTemp (down_long d now s) = targetTemp s"
  "displaySleepMode (down_long d now s) = displaySleepMode s"
  "effects (down_long d now s) = effects s"
  "heaterPin (down_long d now s) = heaterPin s"
  by (simp_all add: down_long_def announce_def saveFreezeGuardState_def Let_def)

lemma up_edge_idle: "lastUpState s \<Longrightarrow> up_edge True now s = s"
  by (simp add: up_edge_def)

lemma down_edge_idle: "lastDownState s \<Longrightarrow> down_edge True now s = s"
  by (simp add: down_edge_def)

lemma up_edge_at_90: "targetTemp s = Fin 90 \<Longrightarrow> targetTemp (up_edge u now s) = Fin 90"
  by (simp add: up_edge_def announce_def Let_def fmin_def)

lemma down_edge_at_50: "targetTemp s = Fin 50 \<Longrightarrow> targetTemp (down_edge d now s) = Fin 50"
  by (simp add: down_edge_def announce_def Let_def fmax_def)

lemma buttons_at_90:
  assumes "targetTemp s = Fin 90" and "lastDownState s"
  shows "targetTemp (state_of (handleButtons up True now s)) = Fin 90"
proof -
  define z where "z = (if \<not> up \<or> \<not> True then s\<lparr>lastActivityTime := now\<rparr> else s)"
  have t: "targetTemp z = Fin 90" and l: "lastDownState z"
    using assms by (simp_all add: z_def)
  have "lastDownState (up_long up now (up_edge up now z))"
    using l by (simp add: up_long_frame up_edge_frame)
  then have "down_edge True now (up_long up now (up_edge up now z)) = up_long up now (up_edge up now z)"
    by (rule down_edge_idle)
  then have "targetTemp (down_edge True now (up_long up now (up_edge up now z))) = Fin 90"
    using up_edge_at_90[OF t] by (simp add: up_long_frame)
  then show ?thesis
    using assms(1) unfolding handleButtons_target z_def by simp
qed

lemma buttons_at_50:
  assumes "targetTemp s = Fin 50" and "lastUpState s"
  shows "targetTemp (state_of (handleButtons True down now s)) = Fin 50"
proof -
  define z where "z = (if \<not> True \<or> \<not> down then s\<lparr>lastActivityTime := now\<rparr> else s)"
  have t: "targetTemp z = Fin 50" and l: "lastUpState z"
    using assms by (simp_all add: z_def)
  have "up_edge True now z = z"
    using l by (rule up_edge_idle)
  then have "targetTemp (down_edge down now (up_long True now (up_edge True now z))) = Fin 50"
    using t by (simp add: down_edge_at_50 up_long_frame)
  then show ?thesis
    using assms(1) unfolding handleButtons_target z_def by simp
qed

lemma web_target_at_bounds:
  "targetTemp s = Fin 90 \<Longrightarrow> targetTemp (handleTarget True (Some (Fin 1)) now s) = Fin 90"
  "targetTemp s = Fin 50 \<Longrightarrow> targetTemp (handleTarget True (Some (Fin (- 1))) now s) = Fin 50"
  by (simp_all add: handleTarget_def announce_def Let_def)

lemma handleButtons_range:
  "target_in_range s \<Longrightarrow> target_in_range (state_of (handleButtons u d now s))"
proof -
  assume a: "target_in_range s"
  have b: "target_in_range (if \<not> u \<or> \<not> d then s\<lparr>lastActivityTime := now\<rparr> else s)"
    using a by (simp add: target_in_range_def)
  have c: "target_in_range (up_long u now (up_edge u now (if \<not> u \<or> \<not> d then s\<lparr>lastActivityTime := now\<rparr> else s)))"
    using up_edge_range[OF b] by (simp add: target_in_range_def up_long_target)
  show ?thesis
    using a down_edge_range[OF c] by (simp add: target_in_range_def handleButtons_target)
qed


lemma sensor_seed_target: "targetTemp (sensor_seed r h s) = targetTemp s"
proof -
  have "targetTemp (fold (\<lambda>i s. s\<lparr>tempReadings := (tempReadings s)[i := x],
                              humReadings := (humReadings s)[i := h i]\<rparr>) is s) = targetTemp s" for x "is"
    by (induction "is" arbitrary: s) simp_all
  then show ?thesis
    by (simp add: sensor_seed_def Let_def delay_def)
qed

lemma loop_sensors_target: "targetTemp (loop_sensors r hm t h now s) = targetTemp s"
  by (simp add: loop_sensors_def Let_def sensor_seed_target sensor_tick_control
      control_heater_def digitalWrite_def smooth_temp_keeps smooth_hum_keeps)

lemma handleToggle_target: "targetTemp (handleToggle auth now s) = targetTemp s"
  by (simp add: handleToggle_def Let_def announce_def digitalWrite_def)

lemma handleFreezeGuard_target: "targetTemp (handleFreezeGuard auth arg now s) = targetTemp s"
  by (simp add: handleFreezeGuard_def Let_def announce_def saveFreezeGuardState_def
      split: option.splits)

lemma apply_event_range:
  "numeric_delta e \<Longrightarrow> target_in_range s \<Longrightarrow> target_in_range (state_of (apply_event e s))"
proof (cases e)
  case (ButtonPoll u d now)
  assume "target_in_range s"
  then show ?thesis using ButtonPoll handleButtons_range by simp
next
  case (WebTarget auth arg now)
  assume n: "numeric_delta e" and r: "target_in_range s"
  show ?thesis
  proof (cases arg)
    case None
    then show ?thesis using WebTarget r handleTarget_range(1) by simp
  next
    case (Some c)
    then obtain x where "c = Fin x" using n WebTarget by (cases c) simp_all
    then show ?thesis using WebTarget Some r handleTarget_range(2) by simp
  qed
next
  case (WebToggle auth now)
  assume "target_in_range s"
  then show ?thesis using WebToggle by (simp add: target_in_range_def handleToggle_target)
next
  case (WebFreezeGuard auth arg now)
  assume "target_in_range s"
  then show ?thesis using WebFreezeGuard
    by (simp add: target_in_range_def handleFreezeGuard_target)
next
  case (SensorPass r hm t h now)
  assume "target_in_range s"
  then show ?thesis using SensorPass by (simp add: target_in_range_def loop_sensors_target)
qed

lemma run_events_range:
  "list_all numeric_delta es \<Longrightarrow> target_in_range s \<Longrightarrow>
     target_in_range (state_of (run_events s es))"
proof (induction es arbitrary: s)
  case Nil
  then show ?case by simp
next
  case (Cons e es)
  have step: "target_in_range (state_of (apply_event e s))"
    using Cons.prems apply_event_range by simp
  show ?case
  proof (cases "apply_event e s")
    case (Continue s')
    then show ?thesis using Cons step by simp
  next
    case (Restart s')
    then show ?thesis using step by simp
  qed
qed

lemma power_on_range: "target_in_range (power_on e)"
  by (simp add: target_in_range_def power_on_def)

text \<open>
  C10, in the form the code satisfies. The target starts in [50, 90] and stays there along every run of
  button polls, web requests and sensor passes in which no target request carries NaN;
  one target request with a numeric change, and one button poll, keep it in range. At
  90 an increment (by web or by the Up button) leaves 90, at 50 a decrement (by web or
  by the Down button) leaves 50.
\<close>

theorem target_clamped:
  assumes "list_all numeric_delta es"
  shows "target_in_range (power_on e)
       \<and> target_in_range (state_of (run_events (power_on e) es))
       \<and> (target_in_range s \<longrightarrow>
            target_in_range (handleTarget auth (Some (Fin d)) now s)
            \<and> target_in_range (state_of (handleButtons up down now s)))
       \<and> (targetTemp s = Fin 90 \<longrightarrow>
            targetTemp (handleTarget True (Some (Fin 1)) now s) = Fin 90
            \<and> (lastDownState s \<longrightarrow>
                 targetTemp (state_of (handleButtons up True now s)) = Fin 90))
       \<and> (targetTemp s = Fin 50 \<longrightarrow>
            targetTemp (handleTarget True (Some (Fin (- 1))) now s) = Fin 50
            \<and> (lastUpState s \<longrightarrow>
                 targetTemp (state_of (handleButtons True down now s)) = Fin 50))"
proof -
  have a: "target_in_range (state_of (run_events (power_on e) es))"
    using assms run_events_range power_on_range by simp
  have b: "target_in_range s \<longrightarrow>
            target_in_range (handleTarget auth (Some (Fin d)) now s)
            \<and> target_in_range (state_of (handleButtons up down now s))"
    using handleTarget_range(2) handleButtons_range by simp
  have c: "targetTemp s = Fin 90 \<longrightarrow>
            targetTemp (handleTarget True (Some (Fin 1)) now s) = Fin 90
            \<and> (lastDownState s \<longrightarrow>
                 targetTemp (state_of (handleButtons up True now s)) = Fin 90)"
    using web_target_at_bounds(1) buttons_at_90 by blast
  have d: "targetTemp s = Fin 50 \<longrightarrow>
            targetTemp (handleTarget True (Some (Fin (- 1))) now s) = Fin 50
            \<and> (lastUpState s \<longrightarrow>
                 targetTemp (state_of (handleButtons True down now s)) = Fin 50)"
    using web_target_at_bounds(2) buttons_at_50 by blast
  show ?thesis using a b c d power_on_range by blast
qed

theorem target_clamped_witness:
  "list_all numeric_delta [WebTarget True (Some (Fin 30)) 100, ButtonPoll False True 200,
      ButtonPoll True True 300]
   \<and> targetTemp (state_of (run_events (power_on blank_eeprom)
        [WebTarget True (Some (Fin 30)) 100, ButtonPoll False True 200,
         ButtonPoll True True 300])) = Fin 90"
proof -
  have n: "list_all numeric_delta [WebTarget True (Some (Fin 30)) 100,
      ButtonPoll False True 200, ButtonPoll True True 300]"
    by simp
  have v: "targetTemp (state_of (run_events (power_on blank_eeprom)
        [WebTarget True (Some (Fin 30)) 100, ButtonPoll False True 200,
         ButtonPoll True True 300])) = Fin 90"
    by (simp add: handleTarget_def handleButtons_def up_edge_def up_long_def down_edge_def
        down_long_def announce_def Let_def fmin_def power_on_def)
  show ?thesis using target_clamped[OF n] n v by simp
qed

text \<open>A target request whose argument parses to NaN makes the target NaN.\<close>

theorem target_clamped_counterexample:
  "targetTemp (handleTarget True (Some NaN) 100 (power_on blank_eeprom)) = NaN
   \<and> \<not> target_in_range (handleTarget True (Some NaN) 100 (power_on blank_eeprom))"
  by (simp add: handleTarget_def announce_def Let_def power_on_def target_in_range_def)

text \<open>
  C6, as the code behaves. With the freeze guard on, the web request
  \<^verbatim>\<open>/target?temp=1\<close> moves the target from 72 to 73, while \<^verbatim>\<open>/toggle\<close> in the same
  state changes nothing.
\<close>

theorem web_target_ignores_freeze_guard:
  "freezeGuardEnabled guard_state
   \<and> targetTemp guard_state = Fin 72
   \<and> targetTemp (handleTarget True (Some (Fin 1)) 9000 guard_state) = Fin 73
   \<and> handleToggle True 9000 guard_state = guard_state"
  by (simp add: handleTarget_def handleToggle_def announce_def Let_def guard_state_def power_on_def)

text \<open>The button path does honour the freeze guard: no poll changes the target.\<close>

lemma buttons_guarded:
  "freezeGuardEnabled s \<Longrightarrow> targetTemp (state_of (handleButtons up down now s)) = targetTemp s"
  by (simp add: handleButtons_target down_edge_def up_long_frame up_edge_def)

subsection \<open>Single-button presses\<close>

text \<open>
  What one poll does to a single button while the other stays released and the display
  is awake: the poll that sees the press, a poll during the hold, and the poll that
  sees a release 1000 ms or more after the press.
\<close>

lemma up_press_poll:
  assumes "\<not> displaySleepMode s" "lastDownState s" "lastUpState s"
  shows "handleButtons False True now s =
           Continue (s\<lparr>lastActivityTime := now, upButtonStart := now,
                        longPressHandled := False, lastUpState := False\<rparr>)"
  using assms
  by (simp add: handleButtons_def Let_def up_edge_def up_long_def down_edge_def down_long_def)

lemma up_hold_poll:
  assumes "\<not> displaySleepMode s" "lastDownState s" "\<not> lastUpState s"
  shows "handleButtons False True now s = Continue (up_long False now (s\<lparr>lastActivityTime := now\<rparr>))"
  using assms
  by (simp add: handleButtons_def Let_def up_edge_def down_edge_def down_long_def up_long_frame)

lemma up_release_poll:
  assumes "\<not> displaySleepMode s" "lastDownState s" "\<not> lastUpState s"
    and "LONG_PRESS_MS \<le> now - upButtonStart s"
  shows "handleButtons True True now s = Continue (s\<lparr>lastUpState := True\<rparr>)"
  using assms
  by (simp add: handleButtons_def Let_def up_edge_def up_long_def down_edge_def down_long_def
      not_less [symmetric])

lemma down_press_poll:
  assumes "\<not> displaySleepMode s" "lastDownState s" "lastUpState s"
  shows "handleButtons True False now s =
           Continue (s\<lparr>lastActivityTime := now, downButtonStart := now,
                        longPressHandled := False, lastDownState := False\<rparr>)"
  using assms
  by (simp add: handleButtons_def Let_def up_edge_def up_long_def down_edge_def down_long_def)

lemma down_hold_poll:
  assumes "\<not> displaySleepMode s" "\<not> lastDownState s" "lastUpState s"
  shows "handleButtons True False now s = Continue (down_long False now (s\<lparr>lastActivityTime := now\<rparr>))"
  using assms
  by (simp add: handleButtons_def Let_def up_edge_def up_long_def down_edge_def down_long_frame)

lemma down_release_poll:
  assumes "\<not> displaySleepMode s" "\<not> lastDownState s" "lastUpState s"
    and "LONG_PRESS_MS \<le> now - downButtonStart s"
  shows "handleButtons True True now s = Continue (s\<lparr>lastDownState := True\<rparr>)"
  using assms
  by (simp add: handleButtons_def Let_def up_edge_def up_long_def down_edge_def down_long_def
      not_less [symmetric])


lemma up_long_held:
  "up_long False now s =
     (if \<not> longPressHandled s \<and> LONG_PRESS_MS \<le> now - upButtonStart s then
        (if \<not> freezeGuardEnabled s then
           s\<lparr>heaterEnabled := \<not> heaterEnabled s, heaterPin := \<not> heaterEnabled s,
             effects := effects s @ [DigitalWrite HEATER_PIN (\<not> heaterEnabled s)],
             showingStateChange := True,
             stateChangeMessage := Text (if \<not> heaterEnabled s then ''HEAT ON'' else ''HEATOFF''),
             stateChangeTime := now, longPressHandled := True\<rparr>
         else s\<lparr>longPressHandled := True\<rparr>)
      else s)"
  by (simp add: up_long_def announce_def digitalWrite_def Let_def)

text \<open>Any number of polls during a hold: the long press fires at most once.\<close>

lemma up_hold_run:
  assumes "\<not> displaySleepMode s" "lastDownState s" "\<not> lastUpState s"
  shows "\<exists>u. button_ticks s (map (\<lambda>t. (False, True, t)) ts) = Continue u
     \<and> \<not> displaySleepMode u \<and> lastDownState u \<and> \<not> lastUpState u
     \<and> upButtonStart u = upButtonStart s
     \<and> longPressHandled u
         = (longPressHandled s \<or> (\<exists>t\<in>set ts. LONG_PRESS_MS \<le> t - upButtonStart s))
     \<and> heaterEnabled u
         = (if \<not> longPressHandled s \<and> (\<exists>t\<in>set ts. LONG_PRESS_MS \<le> t - upButtonStart s)
               \<and> \<not> freezeGuardEnabled s
            then \<not> heaterEnabled s else heaterEnabled s)
     \<and> effects u
         = effects s @
           (if \<not> longPressHandled s \<and> (\<exists>t\<in>set ts. LONG_PRESS_MS \<le> t - upButtonStart s)
               \<and> \<not> freezeGuardEnabled s
            then [DigitalWrite HEATER_PIN (\<not> heaterEnabled s)] else [])
     \<and> freezeGuardEnabled u = freezeGuardEnabled s
     \<and> targetTemp u = targetTemp s \<and> eeprom u = eeprom s"
  using assms
proof (induction ts arbitrary: s)
  case Nil
  then show ?case by simp
next
  case (Cons t ts)
  define s1 where "s1 = up_long False t (s\<lparr>lastActivityTime := t\<rparr>)"
  have poll: "handleButtons False True t s = Continue s1"
    using Cons.prems by (simp add: s1_def up_hold_poll)
  have inv: "\<not> displaySleepMode s1" "lastDownState s1" "\<not> lastUpState s1"
    using Cons.prems by (simp_all add: s1_def up_long_frame)
  obtain u where u: "button_ticks s1 (map (\<lambda>t. (False, True, t)) ts) = Continue u
     \<and> \<not> displaySleepMode u \<and> lastDownState u \<and> \<not> lastUpState u
     \<and> upButtonStart u = upButtonStart s1
     \<and> longPressHandled u
         = (longPressHandled s1 \<or> (\<exists>t\<in>set ts. LONG_PRESS_MS \<le> t - upButtonStart s1))
     \<and> heaterEnabled u
         = (if \<not> longPressHandled s1 \<and> (\<exists>t\<in>set ts. LONG_PRESS_MS \<le> t - upButtonStart s1)
               \<and> \<not> freezeGuardEnabled s1
            then \<not> heaterEnabled s1 else heaterEnabled s1)
     \<and> effects u
         = effects s1 @
           (if \<not> longPressHandled s1 \<and> (\<exists>t\<in>set ts. LONG_PRESS_MS \<le> t - upButtonStart s1)
               \<and> \<not> freezeGuardEnabled s1
            then [DigitalWrite HEATER_PIN (\<not> heaterEnabled s1)] else [])
     \<and> freezeGuardEnabled u = freezeGuardEnabled s1
     \<and> targetTemp u = targetTemp s1 \<and> eeprom u = eeprom s1"
    using Cons.IH[OF inv] by blast
  have f: "upButtonStart s1 = upButtonStart s" "freezeGuardEnabled s1 = freezeGuardEnabled s"
    "targetTemp s1 = targetTemp s" "eeprom s1 = eeprom s"
    by (simp_all add: s1_def up_long_frame)
  have run: "button_ticks s (map (\<lambda>t. (False, True, t)) (t # ts)) = Continue u"
    using poll u by simp
  show ?case
  proof (cases "\<not> longPressHandled s \<and> LONG_PRESS_MS \<le> t - upButtonStart s")
    case True
    then have g: "longPressHandled s1"
      "heaterEnabled s1 = (if freezeGuardEnabled s then heaterEnabled s else \<not> heaterEnabled s)"
      "effects s1 = effects s @ (if freezeGuardEnabled s then [] else [DigitalWrite HEATER_PIN (\<not> heaterEnabled s)])"
      by (simp_all add: s1_def up_long_held)
    show ?thesis
      using run u f g True by (intro exI[of _ u]) auto
  next
    case False
    then have g: "longPressHandled s1 = longPressHandled s"
      "heaterEnabled s1 = heaterEnabled s" "effects s1 = effects s"
      by (auto simp: s1_def up_long_held)
    show ?thesis
      using run u f g False by (intro exI[of _ u]) auto
  qed
qed


lemma down_long_held:
  "down_long False now s =
     (if \<not> longPressHandled s \<and> LONG_PRESS_MS \<le> now - downButtonStart s then
        s\<lparr>freezeGuardEnabled := \<not> freezeGuardEnabled s,
          eeprom := (eeprom s)(FREEZE_GUARD_ADDR := (if freezeGuardEnabled s then 0 else 1)),
          showingStateChange := True,
          stateChangeMessage := Text (if \<not> freezeGuardEnabled s then ''GRD ON'' else ''GRD OFF''),
          stateChangeTime := now, longPressHandled := True\<rparr>
      else s)"
  by (simp add: down_long_def announce_def saveFreezeGuardState_def Let_def)

lemma down_hold_run:
  assumes "\<not> displaySleepMode s" "\<not> lastDownState s" "lastUpState s"
  shows "\<exists>u. button_ticks s (map (\<lambda>t. (True, False, t)) ts) = Continue u
     \<and> \<not> displaySleepMode u \<and> \<not> lastDownState u \<and> lastUpState u
     \<and> downButtonStart u = downButtonStart s
     \<and> longPressHandled u
         = (longPressHandled s \<or> (\<exists>t\<in>set ts. LONG_PRESS_MS \<le> t - downButtonStart s))
     \<and> freezeGuardEnabled u
         = (if \<not> longPressHandled s \<and> (\<exists>t\<in>set ts. LONG_PRESS_MS \<le> t - downButtonStart s)
            then \<not> freezeGuardEnabled s else freezeGuardEnabled s)
     \<and> eeprom u
         = (if \<not> longPressHandled s \<and> (\<exists>t\<in>set ts. LONG_PRESS_MS \<le> t - downButtonStart s)
            then (eeprom s)(FREEZE_GUARD_ADDR := (if freezeGuardEnabled s then 0 else 1))
            else eeprom s)
     \<and> heaterEnabled u = heaterEnabled s \<and> effects u = effects s
     \<and> targetTemp u = targetTemp s"
  using assms
proof (induction ts arbitrary: s)
  case Nil
  then show ?case by simp
next
  case (Cons t ts)
  define s1 where "s1 = down_long False t (s\<lparr>lastActivityTime := t\<rparr>)"
  have poll: "handleButtons True False t s = Continue s1"
    using Cons.prems by (simp add: s1_def down_hold_poll)
  have inv: "\<not> displaySleepMode s1" "\<not> lastDownState s1" "lastUpState s1"
    using Cons.prems by (simp_all add: s1_def down_long_frame)
  obtain u where u: "button_ticks s1 (map (\<lambda>t. (True, False, t)) ts) = Continue u
     \<and> \<not> displaySleepMode u \<and> \<not> lastDownState u \<and> lastUpState u
     \<and> downButtonStart u = downButtonStart s1
     \<and> longPressHandled u
         = (longPressHandled s1 \<or> (\<exists>t\<in>set ts. LONG_PRESS_MS \<le> t - downButtonStart s1))
     \<and> freezeGuardEnabled u
         = (if \<not> longPressHandled s1 \<and> (\<exists>t\<in>set ts. LONG_PRESS_MS \<le> t - downButtonStart s1)
            then \<not> freezeGuardEnabled s1 else freezeGuardEnabled s1)
     \<and> eeprom u
         = (if \<not> longPressHandled s1 \<and> (\<exists>t\<in>set ts. LONG_PRESS_MS \<le> t - downButtonStart s1)
            then (eeprom s1)(FREEZE_GUARD_ADDR := (if freezeGuardEnabled s1 then 0 else 1))
            else eeprom s1)
     \<and> heaterEnabled u = heaterEnabled s1 \<and> effects u = effects s1
     \<and> targetTemp u = targetTemp s1"
    using Cons.IH[OF inv] by blast
  have f: "downButtonStart s1 = downButtonStart s" "heaterEnabled s1 = heaterEnabled s"
    "targetTemp s1 = targetTemp s" "effects s1 = effects s"
    by (simp_all add: s1_def down_long_frame)
  have run: "button_ticks s (map (\<lambda>t. (True, False, t)) (t # ts)) = Continue u"
    using poll u by simp
  show ?case
  proof (cases "\<not> longPressHandled s \<and> LONG_PRESS_MS \<le> t - downButtonStart s")
    case True
    then have g: "longPressHandled s1"
      "freezeGuardEnabled s1 = (\<not> freezeGuardEnabled s)"
      "eeprom s1 = (eeprom s)(FREEZE_GUARD_ADDR := (if freezeGuardEnabled s then 0 else 1))"
      by (simp_all add: s1_def down_long_held)
    show ?thesis
      using run u f g True by (intro exI[of _ u]) auto
  next
    case False
    then have g: "longPressHandled s1 = longPressHandled s"
      "freezeGuardEnabled s1 = freezeGuardEnabled s" "eeprom s1 = eeprom s"
      by (auto simp: s1_def down_long_held)
    show ?thesis
      using run u f g False by (intro exI[of _ u]) auto
  qed
qed

lemma up_press_run:
  assumes "\<not> displaySleepMode s" and "lastUpState s" and "lastDownState s"
    and "fired = (\<exists>t\<in>set ts. LONG_PRESS_MS \<le> t - t0)"
  shows "\<exists>u. button_ticks s (map (\<lambda>t. (False, True, t)) (t0 # ts)) = Continue u
       \<and> longPressHandled u = fired
       \<and> heaterEnabled u
           = (if fired \<and> \<not> freezeGuardEnabled s then \<not> heaterEnabled s else heaterEnabled s)
       \<and> effects u
           = effects s @ (if fired \<and> \<not> freezeGuardEnabled s
                          then [DigitalWrite HEATER_PIN (\<not> heaterEnabled s)] else [])
       \<and> freezeGuardEnabled u = freezeGuardEnabled s \<and> eeprom u = eeprom s
       \<and> targetTemp u = targetTemp s
       \<and> (\<forall>tr. LONG_PRESS_MS \<le> tr - t0 \<longrightarrow>
            (\<exists>v. handleButtons True True tr u = Continue v
                 \<and> targetTemp v = targetTemp s \<and> heaterEnabled v = heaterEnabled u
                 \<and> freezeGuardEnabled v = freezeGuardEnabled u \<and> effects v = effects u))"
proof -
  define s1 where "s1 = s\<lparr>lastActivityTime := t0, upButtonStart := t0,
                        longPressHandled := False, lastUpState := False\<rparr>"
  have poll: "handleButtons False True t0 s = Continue s1"
    using assms(1-3) by (simp add: s1_def up_press_poll)
  have inv: "\<not> displaySleepMode s1" "lastDownState s1" "\<not> lastUpState s1"
    using assms(1-3) by (simp_all add: s1_def)
  obtain u where run: "button_ticks s1 (map (\<lambda>t. (False, True, t)) ts) = Continue u"
    and held: "\<not> displaySleepMode u" "lastDownState u" "\<not> lastUpState u"
      "upButtonStart u = upButtonStart s1"
    and res: "longPressHandled u
         = (longPressHandled s1 \<or> (\<exists>t\<in>set ts. LONG_PRESS_MS \<le> t - upButtonStart s1))"
      "heaterEnabled u
         = (if \<not> longPressHandled s1 \<and> (\<exists>t\<in>set ts. LONG_PRESS_MS \<le> t - upButtonStart s1)
               \<and> \<not> freezeGuardEnabled s1
            then \<not> heaterEnabled s1 else heaterEnabled s1)"
      "effects u
         = effects s1 @
           (if \<not> longPressHandled s1 \<and> (\<exists>t\<in>set ts. LONG_PRESS_MS \<le> t - upButtonStart s1)
               \<and> \<not> freezeGuardEnabled s1
            then [DigitalWrite HEATER_PIN (\<not> heaterEnabled s1)] else [])"
      "freezeGuardEnabled u = freezeGuardEnabled s1"
      "targetTemp u = targetTemp s1" "eeprom u = eeprom s1"
    using up_hold_run[OF inv, of ts] by blast
  have rel: "\<forall>tr. LONG_PRESS_MS \<le> tr - t0 \<longrightarrow>
            (\<exists>v. handleButtons True True tr u = Continue v
                 \<and> targetTemp v = targetTemp s \<and> heaterEnabled v = heaterEnabled u
                 \<and> freezeGuardEnabled v = freezeGuardEnabled u \<and> effects v = effects u)"
  proof (intro allI impI)
    fix tr assume "LONG_PRESS_MS \<le> tr - t0"
    then have "LONG_PRESS_MS \<le> tr - upButtonStart u"
      using held(4) by (simp add: s1_def)
    then have "handleButtons True True tr u = Continue (u\<lparr>lastUpState := True\<rparr>)"
      using held(1-3) by (simp add: up_release_poll)
    then show "\<exists>v. handleButtons True True tr u = Continue v
                 \<and> targetTemp v = targetTemp s \<and> heaterEnabled v = heaterEnabled u
                 \<and> freezeGuardEnabled v = freezeGuardEnabled u \<and> effects v = effects u"
      using res(5) by (simp add: s1_def)
  qed
  have "button_ticks s (map (\<lambda>t. (False, True, t)) (t0 # ts)) = Continue u"
    using poll run by simp
  then show ?thesis
    using res rel assms(4) by (intro exI[of _ u]) (simp add: s1_def)
qed

lemma down_press_run:
  assumes "\<not> displaySleepMode s" and "lastUpState s" and "lastDownState s"
    and "fired = (\<exists>t\<in>set ts. LONG_PRESS_MS \<le> t - t0)"
  shows "\<exists>u. button_ticks s (map (\<lambda>t. (True, False, t)) (t0 # ts)) = Continue u
       \<and> longPressHandled u = fired
       \<and> freezeGuardEnabled u = (if fired then \<not> freezeGuardEnabled s else freezeGuardEnabled s)
       \<and> eeprom u
           = (if fired
              then (eeprom s)(FREEZE_GUARD_ADDR := (if freezeGuardEnabled s then 0 else 1))
              else eeprom s)
       \<and> heaterEnabled u = heaterEnabled s \<and> effects u = effects s
       \<and> targetTemp u = targetTemp s
       \<and> (\<forall>tr. LONG_PRESS_MS \<le> tr - t0 \<longrightarrow>
            (\<exists>v. handleButtons True True tr u = Continue v
                 \<and> targetTemp v = targetTemp s \<and> heaterEnabled v = heaterEnabled s
                 \<and> freezeGuardEnabled v = freezeGuardEnabled u \<and> eeprom v = eeprom u))"
proof -
  define s1 where "s1 = s\<lparr>lastActivityTime := t0, downButtonStart := t0,
                        longPressHandled := False, lastDownState := False\<rparr>"
  have poll: "handleButtons True False t0 s = Continue s1"
    using assms(1-3) by (simp add: s1_def down_press_poll)
  have inv: "\<not> displaySleepMode s1" "\<not> lastDownState s1" "lastUpState s1"
    using assms(1-3) by (simp_all add: s1_def)
  obtain u where run: "button_ticks s1 (map (\<lambda>t. (True, False, t)) ts) = Continue u"
    and held: "\<not> displaySleepMode u" "\<not> lastDownState u" "lastUpState u"
      "downButtonStart u = downButtonStart s1"
    and res: "longPressHandled u
         = (longPressHandled s1 \<or> (\<exists>t\<in>set ts. LONG_PRESS_MS \<le> t - downButtonStart s1))"
      "freezeGuardEnabled u
         = (if \<not> longPressHandled s1 \<and> (\<exists>t\<in>set ts. LONG_PRESS_MS \<le> t - downButtonStart s1)
            then \<not> freezeGuardEnabled s1 else freezeGuardEnabled s1)"
      "eeprom u
         = (if \<not> longPressHandled s1 \<and> (\<exists>t\<in>set ts. LONG_PRESS_MS \<le> t - downButtonStart s1)
            then (eeprom s1)(FREEZE_GUARD_ADDR := (if freezeGuardEnabled s1 then 0 else 1))
            else eeprom s1)"
      "heaterEnabled u = heaterEnabled s1" "effects u = effects s1"
      "targetTemp u = targetTemp s1"
    using down_hold_run[OF inv, of ts] by blast
  have rel: "\<forall>tr. LONG_PRESS_MS \<le> tr - t0 \<longrightarrow>
            (\<exists>v. handleButtons True True tr u = Continue v
                 \<and> targetTemp v = targetTemp s \<and> heaterEnabled v = heaterEnabled s
                 \<and> freezeGuardEnabled v = freezeGuardEnabled u \<and> eeprom v = eeprom u)"
  proof (intro allI impI)
    fix tr assume "LONG_PRESS_MS \<le> tr - t0"
    then have "LONG_PRESS_MS \<le> tr - downButtonStart u"
      using held(4) by (simp add: s1_def)
    then have "handleButtons True True tr u = Continue (u\<lparr>lastDownState := True\<rparr>)"
      using held(1-3) by (simp add: down_release_poll)
    then show "\<exists>v. handleButtons True True tr u = Continue v
                 \<and> targetTemp v = targetTemp s \<and> heaterEnabled v = heaterEnabled s
                 \<and> freezeGuardEnabled v = freezeGuardEnabled u \<and> eeprom v = eeprom u"
      using res(4,6) by (simp add: s1_def)
  qed
  have "button_ticks s (map (\<lambda>t. (True, False, t)) (t0 # ts)) = Continue u"
    using poll run by simp
  then show ?thesis
    using res rel assms(4) by (intro exI[of _ u]) (simp add: s1_def)
qed


text \<open>
  A press of one button alone, from the idle state, polled at \<open>t0\<close> and then at the
  times \<open>ts\<close> while it is held, the other button released throughout. The long-press
  action has run once if some poll of the hold saw 1000 ms or more elapsed, and not at
  all otherwise, however many polls follow: Up flips \<open>heaterEnabled\<close> and writes the
  pin once (nothing under the freeze guard), Down flips the freeze guard and stores the
  new flag. The target is untouched by the hold, and a release 1000 ms or more after
  the press leaves it untouched too.
\<close>

lemma lone_press_once:
  assumes "\<not> displaySleepMode s" and "lastUpState s" and "lastDownState s"
    and "fired = (\<exists>t\<in>set ts. LONG_PRESS_MS \<le> t - t0)"
  shows "(\<exists>u. button_ticks s (map (\<lambda>t. (False, True, t)) (t0 # ts)) = Continue u
       \<and> longPressHandled u = fired
       \<and> heaterEnabled u
           = (if fired \<and> \<not> freezeGuardEnabled s then \<not> heaterEnabled s else heaterEnabled s)
       \<and> effects u
           = effects s @ (if fired \<and> \<not> freezeGuardEnabled s
                          then [DigitalWrite HEATER_PIN (\<not> heaterEnabled s)] else [])
       \<and> freezeGuardEnabled u = freezeGuardEnabled s \<and> eeprom u = eeprom s
       \<and> targetTemp u = targetTemp s
       \<and> (\<forall>tr. LONG_PRESS_MS \<le> tr - t0 \<longrightarrow>
            (\<exists>v. handleButtons True True tr u = Continue v
                 \<and> targetTemp v = targetTemp s \<and> heaterEnabled v = heaterEnabled u
                 \<and> freezeGuardEnabled v = freezeGuardEnabled u \<and> effects v = effects u)))
    \<and> (\<exists>u. button_ticks s (map (\<lambda>t. (True, False, t)) (t0 # ts)) = Continue u
       \<and> longPressHandled u = fired
       \<and> freezeGuardEnabled u = (if fired then \<not> freezeGuardEnabled s else freezeGuardEnabled s)
       \<and> eeprom u
           = (if fired
              then (eeprom s)(FREEZE_GUARD_ADDR := (if freezeGuardEnabled s then 0 else 1))
              else eeprom s)
       \<and> heaterEnabled u = heaterEnabled s \<and> effects u = effects s
       \<and> targetTemp u = targetTemp s
       \<and> (\<forall>tr. LONG_PRESS_MS \<le> tr - t0 \<longrightarrow>
            (\<exists>v. handleButtons True True tr u = Continue v
                 \<and> targetTemp v = targetTemp s \<and> heaterEnabled v = heaterEnabled s
                 \<and> freezeGuardEnabled v = freezeGuardEnabled u \<and> eeprom v = eeprom u)))"
proof (rule conjI)
  show "\<exists>u. button_ticks s (map (\<lambda>t. (False, True, t)) (t0 # ts)) = Continue u
       \<and> longPressHandled u = fired
       \<and> heaterEnabled u
           = (if fired \<and> \<not> freezeGuardEnabled s then \<not> heaterEnabled s else heaterEnabled s)
       \<and> effects u
           = effects s @ (if fired \<and> \<not> freezeGuardEnabled s
                          then [DigitalWrite HEATER_PIN (\<not> heaterEnabled s)] else [])
       \<and> freezeGuardEnabled u = freezeGuardEnabled s \<and> eeprom u = eeprom s
       \<and> targetTemp u = targetTemp s
       \<and> (\<forall>tr. LONG_PRESS_MS \<le> tr - t0 \<longrightarrow>
            (\<exists>v. handleButtons True True tr u = Continue v
                 \<and> targetTemp v = targetTemp s \<and> heaterEnabled v = heaterEnabled u
                 \<and> freezeGuardEnabled v = freezeGuardEnabled u \<and> effects v = effects u))"
    by (rule up_press_run[OF assms])
next
  show "\<exists>u. button_ticks s (map (\<lambda>t. (True, False, t)) (t0 # ts)) = Continue u
       \<and> longPressHandled u = fired
       \<and> freezeGuardEnabled u = (if fired then \<not> freezeGuardEnabled s else freezeGuardEnabled s)
       \<and> eeprom u
           = (if fired
              then (eeprom s)(FREEZE_GUARD_ADDR := (if freezeGuardEnabled s then 0 else 1))
              else eeprom s)
       \<and> heaterEnabled u = heaterEnabled s \<and> effects u = effects s
       \<and> targetTemp u = targetTemp s
       \<and> (\<forall>tr. LONG_PRESS_MS \<le> tr - t0 \<longrightarrow>
            (\<exists>v. handleButtons True True tr u = Continue v
                 \<and> targetTemp v = targetTemp s \<and> heaterEnabled v = heaterEnabled s
                 \<and> freezeGuardEnabled v = freezeGuardEnabled u \<and> eeprom v = eeprom u))"
    by (rule down_press_run[OF assms])
qed

lemma lone_press_once_example:
  "\<not> displaySleepMode (power_on blank_eeprom) \<and> lastUpState (power_on blank_eeprom)
   \<and> lastDownState (power_on blank_eeprom)
   \<and> (\<exists>t\<in>set [10600, 11100, 11600 :: millis]. LONG_PRESS_MS \<le> t - 10100)
   \<and> (\<exists>u. button_ticks (power_on blank_eeprom)
             (map (\<lambda>t. (False, True, t)) [10100, 10600, 11100, 11600]) = Continue u
          \<and> heaterEnabled u \<and> effects u = [DigitalWrite HEATER_PIN True]
          \<and> (\<exists>v. handleButtons True True 11700 u = Continue v \<and> targetTemp v = Fin 72))
   \<and> (\<exists>u. button_ticks (power_on blank_eeprom)
             (map (\<lambda>t. (True, False, t)) [10100, 10600, 11100, 11600]) = Continue u
          \<and> freezeGuardEnabled u
          \<and> eeprom u = (eeprom (power_on blank_eeprom))(FREEZE_GUARD_ADDR := 1)
          \<and> (\<exists>v. handleButtons True True 11700 u = Continue v \<and> targetTemp v = Fin 72))"
proof -
  have a: "\<not> displaySleepMode (power_on blank_eeprom)" "lastUpState (power_on blank_eeprom)"
    "lastDownState (power_on blank_eeprom)"
    by (simp_all add: power_on_def)
  have f: "True = (\<exists>t\<in>set [10600, 11100, 11600 :: millis]. LONG_PRESS_MS \<le> t - 10100)"
    by simp
  have r: "LONG_PRESS_MS \<le> (11700 :: millis) - 10100"
    by simp
  have base: "heaterEnabled (power_on blank_eeprom) = False"
    "freezeGuardEnabled (power_on blank_eeprom) = False"
    "effects (power_on blank_eeprom) = []" "targetTemp (power_on blank_eeprom) = Fin 72"
    by (simp_all add: power_on_def)
  show ?thesis
    using lone_press_once[OF a f] a
    by (simp add: base) (insert r, blast)
qed

subsection \<open>Both buttons held\<close>

lemma dual_hold_first_sleep:
  "button_ticks (power_on blank_eeprom) dual_hold = Continue asleep_12000"
  by (simp add: dual_hold_def asleep_12000_def handleButtons_def up_edge_def up_long_def down_edge_def
      down_long_def announce_def delay_def digitalWrite_def Let_def power_on_def)

text \<open>
  C5, as the code behaves. There is one \<open>longPressHandled\<close> for both buttons. Up is
  held from 10000 ms: its long press fires at 11000 ms and switches the heater on.
  Down is tapped at 11500 ms, which clears the flag, and the poll at 11550 ms fires
  the long press of the same Up press a second time and switches the heater off again.
  In the hold of both buttons from 10000 ms, Up's long press takes the flag at
  11000 ms and Down's never fires: the freeze guard and its stored byte stay as they
  were.
\<close>

theorem shared_latch_fires_twice:
  "heaterEnabled (state_of (button_ticks (power_on blank_eeprom)
       [(False, True, 10000), (False, True, 11000)]))
   \<and> effects (state_of (button_ticks (power_on blank_eeprom)
       [(False, True, 10000), (False, True, 11000)])) = [DigitalWrite HEATER_PIN True]
   \<and> \<not> heaterEnabled (state_of (button_ticks (power_on blank_eeprom) up_held_down_tapped))
   \<and> effects (state_of (button_ticks (power_on blank_eeprom) up_held_down_tapped))
       = [DigitalWrite HEATER_PIN True, DigitalWrite HEATER_PIN False]
   \<and> button_ticks (power_on blank_eeprom) dual_hold = Continue asleep_12000
   \<and> \<not> freezeGuardEnabled asleep_12000
   \<and> eeprom asleep_12000 FREEZE_GUARD_ADDR = 0"
  by (simp add: dual_hold_first_sleep)
     (simp add: up_held_down_tapped_def asleep_12000_def handleButtons_def up_edge_def
      up_long_def down_edge_def down_long_def announce_def delay_def digitalWrite_def
      Let_def fmax_def power_on_def blank_eeprom_def)

text \<open>
  C4, as the code behaves. Both buttons are pressed at 10000 ms and held.
  The poll at 12000 ms puts the display to sleep; the poll at 12250 ms, after the
  250 ms delay, finds the buttons still low and wakes it; the poll at 12500 ms puts it
  to sleep again: three 250 ms delays and two entries into sleep within one hold.
\<close>

theorem dual_hold_sleeps_again:
  "button_ticks (power_on blank_eeprom) dual_hold = Continue asleep_12000
   \<and> displaySleepMode asleep_12000
   \<and> \<not> displaySleepMode (state_of (button_ticks asleep_12000 [(False, False, 12250)]))
   \<and> displaySleepMode
        (state_of (button_ticks asleep_12000 [(False, False, 12250), (False, False, 12500)]))
   \<and> effects (state_of (button_ticks asleep_12000 [(False, False, 12250), (False, False, 12500)]))
        = [DigitalWrite HEATER_PIN True, Delay 250, Delay 250, Delay 250]"
  by (simp add: dual_hold_first_sleep)
     (simp add: asleep_12000_def handleButtons_def up_edge_def up_long_def down_edge_def
      down_long_def announce_def delay_def digitalWrite_def Let_def power_on_def)

lemma fold_fun_upd_range:
  "fold (\<lambda>i e. e(b + i := f i)) [0..<n] e = (\<lambda>a. if b \<le> a \<and> a < b + n then f (a - b) else e a)"
proof (induction n)
  case 0
  show ?case by (rule ext) auto
next
  case (Suc n)
  have "fold (\<lambda>i e. e(b + i := f i)) [0..<Suc n] e
          = (fold (\<lambda>i e. e(b + i := f i)) [0..<n] e)(b + n := f n)"
    by simp
  also have "\<dots> = (\<lambda>a. if b \<le> a \<and> a < b + n then f (a - b) else e a)(b + n := f n)"
    by (simp only: Suc)
  also have "\<dots> = (\<lambda>a. if b \<le> a \<and> a < b + Suc n then f (a - b) else e a)"
    by (rule ext) auto
  finally show ?case .
qed

lemma saveWiFiCredentials_eeprom:
  "eeprom (saveWiFiCredentials ssid password s) a =
     (if a < 32 then (if a < length ssid then ssid ! a else 0)
      else if a < 96 then (if a - 32 < length password then password ! (a - 32) else 0)
      else eeprom s a)"
  by (simp add: saveWiFiCredentials_def Let_def fold_fun_upd_range[where b=32]
        fold_fun_upd_range[where b=0, simplified])

text \<open>
  With the display awake and both buttons held for 5000 ms or more, a poll erases the
  96 bytes of the stored network identity and restarts.
\<close>

lemma dual_hold_reset:
  assumes "\<not> displaySleepMode s" "\<not> lastUpState s" "\<not> lastDownState s"
    and "WIFI_RESET_MS \<le> now - upButtonStart s" "WIFI_RESET_MS \<le> now - downButtonStart s"
  shows "\<exists>r. handleButtons False False now s = Restart r \<and> (\<forall>a<96. eeprom r a = 0)"
proof -
  define z where "z = down_long False now (down_edge False now (up_long False now
                        (up_edge False now (s\<lparr>lastActivityTime := now\<rparr>))))"
  have st: "upButtonStart z = upButtonStart s" "downButtonStart z = downButtonStart s"
    using assms(2,3) by (simp_all add: z_def down_long_frame up_long_frame up_edge_def down_edge_def)
  have "\<not> now - upButtonStart s < WIFI_RESET_MS"
    using assms(4) by (simp add: not_less)
  moreover have "SLEEP_PRESS_MS \<le> now - upButtonStart s"
    using assms(4) by (rule order_trans[rotated]) simp
  ultimately have "handleButtons False False now s =
      Restart (saveWiFiCredentials [] [] (delay 1000 (announce (Text ''RESET'') now z)))"
    using assms st unfolding handleButtons_def z_def Let_def by simp
  then show ?thesis
    by (simp add: saveWiFiCredentials_eeprom)
qed


subsection \<open>Boot\<close>

lemma wifi_wait_spec:
  "attempts \<le> 30 \<Longrightarrow> wifi_wait st attempts s = (a', s') \<Longrightarrow>
     attempts \<le> a' \<and> a' \<le> 30 \<and> (\<forall>k. attempts \<le> k \<and> k < a' \<longrightarrow> \<not> st k)
     \<and> (a' < 30 \<longrightarrow> st a')
     \<and> s' = s\<lparr>effects := effects s @ replicate (a' - attempts) (Delay 500)\<rparr>"
proof (induction st attempts s arbitrary: a' s' rule: wifi_wait.induct)
  case (1 status attempts s)
  show ?case
  proof (cases "\<not> status attempts \<and> attempts < 30")
    case True
    then have rec: "wifi_wait status (attempts + 1) (delay 500 s) = (a', s')"
      using "1.prems"(2) by (simp add: wifi_wait.simps[of status attempts s])
    have le: "attempts + 1 \<le> 30"
      using True by simp
    have ih: "attempts + 1 \<le> a' \<and> a' \<le> 30
       \<and> (\<forall>k. attempts + 1 \<le> k \<and> k < a' \<longrightarrow> \<not> status k)
       \<and> (a' < 30 \<longrightarrow> status a')
       \<and> s' = (delay 500 s)\<lparr>effects := effects (delay 500 s)
                                  @ replicate (a' - (attempts + 1)) (Delay 500)\<rparr>"
      using "1.IH"[OF True le rec] .
    have rep: "replicate (a' - attempts) (Delay 500)
                 = Delay 500 # replicate (a' - (attempts + 1)) (Delay 500)"
      using ih by (cases "a' - attempts") simp_all
    have none: "\<forall>k. attempts \<le> k \<and> k < a' \<longrightarrow> \<not> status k"
    proof (intro allI impI)
      fix k assume k: "attempts \<le> k \<and> k < a'"
      show "\<not> status k"
      proof (cases "k = attempts")
        case True
        then show ?thesis using \<open>\<not> status attempts \<and> attempts < 30\<close> by simp
      next
        case False
        then have "attempts + 1 \<le> k \<and> k < a'" using k by simp
        then show ?thesis using ih by blast
      qed
    qed
    show ?thesis
      using ih none by (simp add: rep delay_def)
  next
    case False
    then have "wifi_wait status attempts s = (attempts, s)"
      by (simp only: wifi_wait.simps[of status attempts s] if_False)
    then have "a' = attempts" "s' = s"
      using "1.prems"(2) by simp_all
    then show ?thesis
      using False "1.prems"(1) by auto
  qed
qed


lemma wifi_wait_never:
  assumes "wifi_wait st 0 s = (a, s')" and "\<forall>k. \<not> st k"
  shows "a = 30"
proof -
  have "a \<le> 30 \<and> (a < 30 \<longrightarrow> st a)"
    using wifi_wait_spec[OF _ assms(1)] by simp
  then show ?thesis using assms(2) by (cases "a < 30") auto
qed

lemma wifi_wait_at_once:
  assumes "wifi_wait st 0 s = (a, s')" and "st 0"
  shows "a = 0"
proof -
  have "\<forall>k. 0 \<le> k \<and> k < a \<longrightarrow> \<not> st k"
    using wifi_wait_spec[OF _ assms(1)] by simp
  then show ?thesis using assms(2) by (cases a) auto
qed

lemma boot_prelude:
  "storedSSID (loadWiFiCredentials (loadFreezeGuardState (digitalWrite HEATER_PIN False s0)))
     = storedSSID (loadWiFiCredentials s0)"
  "effects (loadWiFiCredentials (loadFreezeGuardState (digitalWrite HEATER_PIN False s0)))
     = effects s0 @ [DigitalWrite HEATER_PIN False]"
  by (simp_all add: loadWiFiCredentials_def loadFreezeGuardState_def digitalWrite_def)


text \<open>
  C9, in the form the code satisfies. When the sensor answers and the display initialises, \<^verbatim>\<open>setup()\<close>
  returns. With a stored name shorter than 2 characters it enters setup mode without
  waiting. Otherwise it waits in steps of 500 ms, at most 30 of them, one after each
  status call that is not connected; the status call after the loop decides: normal
  mode when connected, setup mode when not. A network that never connects costs
  exactly 30 waits and ends in setup mode; one that is connected from the start costs
  none and ends in normal mode.
\<close>

theorem boot_mode:
  assumes "bme_begin_76 env \<or> bme_begin_77 env" and "display_begin env"
    and "ssid = storedSSID (loadWiFiCredentials s0)"
  shows "\<exists>s' attempts. setup_boot env s0 = Some s' \<and> attempts \<le> 30
      \<and> effects s' = effects s0 @ DigitalWrite HEATER_PIN False # replicate attempts (Delay 500)
      \<and> isAP s' = setupMode s'
      \<and> (length ssid < 2 \<longrightarrow> attempts = 0 \<and> setupMode s')
      \<and> (2 \<le> length ssid \<longrightarrow>
            (\<forall>k<attempts. \<not> wifi_status env k)
            \<and> (attempts < 30 \<longrightarrow> wifi_status env attempts)
            \<and> setupMode s' = (\<not> wifi_status env (attempts + 1))
            \<and> ((\<forall>k. \<not> wifi_status env k) \<longrightarrow> attempts = 30 \<and> setupMode s')
            \<and> ((\<forall>k. wifi_status env k) \<longrightarrow> attempts = 0 \<and> \<not> setupMode s'))"
proof -
  define s3 where
    "s3 = loadWiFiCredentials (loadFreezeGuardState (digitalWrite HEATER_PIN False s0))"
  have ssid: "storedSSID s3 = ssid"
    and eff: "effects s3 = effects s0 @ [DigitalWrite HEATER_PIN False]"
    by (simp_all add: s3_def boot_prelude assms(3))
  have g1: "\<not> (\<not> bme_begin_76 env \<and> \<not> bme_begin_77 env)"
    using assms(1) by blast
  have g2: "\<not> \<not> display_begin env"
    using assms(2) by simp
  show ?thesis
  proof (cases "length ssid < 2")
    case True
    define s' where "s' = enterSetupMode s3"
    have "length (storedSSID s3) < 2"
      using True ssid by simp
    then have run: "setup_boot env s0 = Some s'"
      unfolding s3_def s'_def
      by (simp only: setup_boot_def Let_def g1 g2 if_False if_True)
    have e: "effects s' = effects s0 @ DigitalWrite HEATER_PIN False # replicate 0 (Delay 500)"
      using eff by (simp add: s'_def enterSetupMode_def)
    have m: "isAP s' = setupMode s'" "setupMode s'"
      by (simp_all add: s'_def enterSetupMode_def)
    have "setup_boot env s0 = Some s' \<and> (0::nat) \<le> 30
      \<and> effects s' = effects s0 @ DigitalWrite HEATER_PIN False # replicate 0 (Delay 500)
      \<and> isAP s' = setupMode s'
      \<and> (length ssid < 2 \<longrightarrow> (0::nat) = 0 \<and> setupMode s')
      \<and> (2 \<le> length ssid \<longrightarrow>
            (\<forall>k<0. \<not> wifi_status env k)
            \<and> ((0::nat) < 30 \<longrightarrow> wifi_status env 0)
            \<and> setupMode s' = (\<not> wifi_status env (0 + 1))
            \<and> ((\<forall>k. \<not> wifi_status env k) \<longrightarrow> (0::nat) = 30 \<and> setupMode s')
            \<and> ((\<forall>k. wifi_status env k) \<longrightarrow> (0::nat) = 0 \<and> \<not> setupMode s'))"
      using True run e m by simp
    then show ?thesis
      by (intro exI[of _ s'] exI[of _ "0::nat"])
  next
    case False
    obtain a s4 where w: "wifi_wait (wifi_status env) 0 s3 = (a, s4)"
      by (cases "wifi_wait (wifi_status env) 0 s3") blast
    have spec: "a \<le> 30" "\<forall>k<a. \<not> wifi_status env k"
      "a < 30 \<longrightarrow> wifi_status env a"
      "s4 = s3\<lparr>effects := effects s3 @ replicate a (Delay 500)\<rparr>"
      using wifi_wait_spec[OF _ w] by simp_all
    define s' where
      "s' = (if wifi_status env (a + 1) then setupNormalMode s4 else enterSetupMode s4)"
    have long: "\<not> length (storedSSID s3) < 2"
      using False ssid by simp
    have "setup_boot env s0 =
            (case wifi_wait (wifi_status env) 0 s3 of
               (attempts, s4) \<Rightarrow>
                 if wifi_status env (attempts + 1) then Some (setupNormalMode s4)
                 else Some (enterSetupMode s4))"
      using long unfolding s3_def
      by (simp only: setup_boot_def Let_def g1 g2 if_False)
    then have run: "setup_boot env s0 = Some s'"
      by (simp add: w s'_def)
    have e: "effects s' = effects s0 @ DigitalWrite HEATER_PIN False # replicate a (Delay 500)"
      by (simp add: s'_def spec(4) eff setupNormalMode_def enterSetupMode_def)
    have m: "setupMode s' = (\<not> wifi_status env (a + 1))" "isAP s' = setupMode s'"
      by (simp_all add: s'_def setupNormalMode_def enterSetupMode_def)
    have never: "(\<forall>k. \<not> wifi_status env k) \<longrightarrow> a = 30 \<and> setupMode s'"
      using wifi_wait_never[OF w] m(1) by simp
    have once: "(\<forall>k. wifi_status env k) \<longrightarrow> a = 0 \<and> \<not> setupMode s'"
      using wifi_wait_at_once[OF w] m(1) by simp
    have c1: "length ssid < 2 \<longrightarrow> a = 0 \<and> setupMode s'"
      using False by simp
    have "setup_boot env s0 = Some s' \<and> a \<le> 30
      \<and> effects s' = effects s0 @ DigitalWrite HEATER_PIN False # replicate a (Delay 500)
      \<and> isAP s' = setupMode s'
      \<and> (length ssid < 2 \<longrightarrow> a = 0 \<and> setupMode s')
      \<and> (2 \<le> length ssid \<longrightarrow>
            (\<forall>k<a. \<not> wifi_status env k)
            \<and> (a < 30 \<longrightarrow> wifi_status env a)
            \<and> setupMode s' = (\<not> wifi_status env (a + 1))
            \<and> ((\<forall>k. \<not> wifi_status env k) \<longrightarrow> a = 30 \<and> setupMode s')
            \<and> ((\<forall>k. wifi_status env k) \<longrightarrow> a = 0 \<and> \<not> setupMode s'))"
      by (intro conjI impI run spec(1) e m(2) c1 spec(2) spec(3) m(1) never once)
    then show ?thesis
      by (intro exI[of _ s'] exI[of _ a])
  qed
qed

text \<open>
  With an empty stored name, a boot whose display does not initialise returns with
  \<open>setupMode\<close> still false, and a boot without a sensor never returns.
\<close>

theorem boot_mode_counterexample:
  "storedSSID (loadWiFiCredentials (power_on blank_eeprom)) = []
   \<and> setup_boot no_display (power_on blank_eeprom) = Some (power_on blank_eeprom)
   \<and> \<not> setupMode (power_on blank_eeprom)
   \<and> setup_boot no_sensor (power_on blank_eeprom) = None"
  by (simp add: setup_boot_def no_display_def no_sensor_def loadWiFiCredentials_def)
     (simp add: power_on_def blank_eeprom_def)



lemma upt_32:
  "[0..<32] = [0, 1, 2, 3, 4, 5, 6, 7, 8, 9, 10, 11, 12, 13, 14, 15, 16, 17, 18, 19, 20,
               21, 22, 23, 24, 25, 26, 27, 28, 29, 30, 31 :: nat]"
  by code_simp

lemma home_ssid:
  "storedSSID (loadWiFiCredentials (power_on home_eeprom)) = [104, 111, 109, 101]"
  by (simp add: loadWiFiCredentials_def power_on_def home_eeprom_def upt_32)


theorem boot_mode_witness:
  "(bme_begin_76 slow_wifi \<or> bme_begin_77 slow_wifi) \<and> display_begin slow_wifi
   \<and> storedSSID (loadWiFiCredentials (power_on home_eeprom)) = [104, 111, 109, 101]
   \<and> (\<exists>s'. setup_boot slow_wifi (power_on home_eeprom) = Some s' \<and> \<not> setupMode s'
          \<and> effects s' = [DigitalWrite HEATER_PIN False, Delay 500, Delay 500, Delay 500])"
proof -
  have a: "bme_begin_76 slow_wifi \<or> bme_begin_77 slow_wifi" and b: "display_begin slow_wifi"
    by (simp_all add: slow_wifi_def)
  obtain s' attempts where r: "setup_boot slow_wifi (power_on home_eeprom) = Some s'
      \<and> attempts \<le> 30
      \<and> effects s' = effects (power_on home_eeprom)
                        @ DigitalWrite HEATER_PIN False # replicate attempts (Delay 500)
      \<and> isAP s' = setupMode s'
      \<and> (length [104, 111, 109, 101 :: byte] < 2 \<longrightarrow> attempts = 0 \<and> setupMode s')
      \<and> (2 \<le> length [104, 111, 109, 101 :: byte] \<longrightarrow>
            (\<forall>k<attempts. \<not> wifi_status slow_wifi k)
            \<and> (attempts < 30 \<longrightarrow> wifi_status slow_wifi attempts)
            \<and> setupMode s' = (\<not> wifi_status slow_wifi (attempts + 1))
            \<and> ((\<forall>k. \<not> wifi_status slow_wifi k) \<longrightarrow> attempts = 30 \<and> setupMode s')
            \<and> ((\<forall>k. wifi_status slow_wifi k) \<longrightarrow> attempts = 0 \<and> \<not> setupMode s'))"
    using boot_mode[OF a b home_ssid[symmetric]] by (elim exE) (rule that)
  have run: "setup_boot slow_wifi (power_on home_eeprom) = Some s'"
    and le: "attempts \<le> 30"
    and eff: "effects s' = effects (power_on home_eeprom)
                        @ DigitalWrite HEATER_PIN False # replicate attempts (Delay 500)"
    using r by (rule conjunct1, rule conjunct2[THEN conjunct1],
        rule conjunct2[THEN conjunct2, THEN conjunct1])
  have two: "2 \<le> length [104, 111, 109, 101 :: byte]"
    by simp
  have polls: "(\<forall>k<attempts. \<not> wifi_status slow_wifi k)
            \<and> (attempts < 30 \<longrightarrow> wifi_status slow_wifi attempts)
            \<and> setupMode s' = (\<not> wifi_status slow_wifi (attempts + 1))
            \<and> ((\<forall>k. \<not> wifi_status slow_wifi k) \<longrightarrow> attempts = 30 \<and> setupMode s')
            \<and> ((\<forall>k. wifi_status slow_wifi k) \<longrightarrow> attempts = 0 \<and> \<not> setupMode s')"
    using r[THEN conjunct2, THEN conjunct2, THEN conjunct2, THEN conjunct2, THEN conjunct2]
      two by (rule mp)
  have before: "\<forall>k<attempts. \<not> 3 \<le> k" and at: "attempts < 30 \<longrightarrow> 3 \<le> attempts"
    and mode: "setupMode s' = (\<not> 3 \<le> attempts + 1)"
    using polls[THEN conjunct1] polls[THEN conjunct2, THEN conjunct1]
      polls[THEN conjunct2, THEN conjunct2, THEN conjunct1]
    by (simp_all add: slow_wifi_def)
  have lo: "3 \<le> attempts"
    using at le by (cases "attempts < 30") simp_all
  have hi: "attempts \<le> 3"
  proof (rule ccontr)
    assume "\<not> attempts \<le> 3"
    then have "3 < attempts" by simp
    then show False using before by auto
  qed
  have three: "attempts = 3"
    using lo hi by simp
  have "\<not> setupMode s'"
    using mode three by simp
  moreover have "effects s' = [DigitalWrite HEATER_PIN False, Delay 500, Delay 500, Delay 500]"
    using eff three by (simp add: power_on_def numeral_3_eq_3)
  ultimately show ?thesis
    using a b run home_ssid by simp
qed

end
